theory Spec2Isabelle
  imports Main
begin

section \<open>The gRPC AsyncIO transport of IAMCredentials\<close>

text \<open>
  The development embeds \<^verbatim>\<open>transports/grpc_asyncio.py\<close>: the class
  \<^verbatim>\<open>IAMCredentialsGrpcAsyncIOTransport\<close> with its class method \<^verbatim>\<open>create_channel\<close>, its
  constructor, the property \<^verbatim>\<open>grpc_channel\<close> and the four stub properties.

  The class talks to collaborators it does not define: \<^verbatim>\<open>grpc_helpers_async.create_channel\<close>,
  \<^verbatim>\<open>grpc.ssl_channel_credentials\<close>, \<^verbatim>\<open>SslCredentials\<close>, the \<^verbatim>\<open>unary_unary\<close> method of a channel, the
  callback \<^verbatim>\<open>client_cert_source\<close> and the constructor of the base class. Every call to one of
  them is recorded, with its arguments and its outcome, in a trace; objects the calls
  create get a fresh identity, so that "the same object" is an equation. Whether a
  collaborator raises is not decided here: it is read from a \<open>library\<close>, a parameter of
  every operation.
\<close>

subsection \<open>Values\<close>

type_synonym bytes = string

text \<open>Exceptions that can leave the constructor or a property.\<close>

datatype error =
    DuplicateCredentialArgs
  | MutualTlsChannelError
  | LibraryError string

text \<open>
  The \<^verbatim>\<open>credentials\<close> variable holds \<^verbatim>\<open>None\<close>, a credentials object, or (after line 149)
  \<^verbatim>\<open>False\<close>.
\<close>

datatype credentials =
    NoCredentials
  | FalseValue
  | Credentials nat

datatype ssl_credentials =
    SslChannelCredentials bytes bytes
  | DefaultSslCredentials

datatype channel = Channel nat

text \<open>The callable that \<^verbatim>\<open>channel.unary_unary(route, request_serializer, response_deserializer)\<close> returns.\<close>

record multicallable =
  mc_id :: nat
  mc_channel :: channel
  mc_route :: string
  mc_request_serializer :: string
  mc_response_deserializer :: string

type_synonym kwargs = "(string \<times> ssl_credentials) list"

text \<open>The arguments of one call of \<^verbatim>\<open>grpc_helpers_async.create_channel\<close>.\<close>

record channel_call =
  cc_host :: string
  cc_credentials :: credentials
  cc_credentials_file :: "string option"
  cc_scopes :: "string list"
  cc_quota_project_id :: "string option"
  cc_kwargs :: kwargs

text \<open>The arguments of one call of the base constructor.\<close>

record base_call =
  bc_host :: string
  bc_credentials :: credentials
  bc_credentials_file :: "string option"
  bc_scopes :: "string list"
  bc_quota_project_id :: "string option"

datatype event =
    ClientCertSourceCalled "error + bytes \<times> bytes"
  | SslCredentialsRead "error + ssl_credentials"
  | CreateChannelCalled channel_call "error + channel"
  | BaseInitCalled base_call "error + string \<times> credentials"
  | UnaryUnaryCalled multicallable

text \<open>
  What the collaborators do, as far as the transport can observe it. \<open>AUTH_SCOPES\<close> is the
  class attribute inherited from the base class; the other fields say, for a call made
  after the given trace, whether the collaborator raises.
\<close>

record library =
  AUTH_SCOPES :: "string list"
  channel_error :: "event list \<Rightarrow> channel_call \<Rightarrow> error option"
  ssl_error :: "event list \<Rightarrow> error option"
  base_fields :: "event list \<Rightarrow> base_call \<Rightarrow> error + string \<times> credentials"

text \<open>
  The world outside an instance: the trace of collaborator calls, the next unused object
  identity, and the dictionary objects by identity. Identity \<open>0\<close> is the dictionary that
  the class attribute \<^verbatim>\<open>_stubs\<close> (line 56) holds.
\<close>

record world =
  trace :: "event list"
  fresh :: nat
  dicts :: "nat \<Rightarrow> (string \<rightharpoonup> multicallable)"

definition class_stubs :: nat where
  "class_stubs = 0"

definition initial_world :: world where
  "initial_world = \<lparr>trace = [], fresh = 1, dicts = (\<lambda>_. Map.empty)\<rparr>"

text \<open>
  The attributes of an instance. \<open>t_grpc_channel = None\<close> is an instance without the
  attribute \<^verbatim>\<open>_grpc_channel\<close>; \<open>t_stubs\<close> is the identity of the dictionary \<^verbatim>\<open>_stubs\<close> refers to.
\<close>

record transport =
  t_grpc_channel :: "channel option"
  t_stubs :: nat
  t_host :: string
  t_credentials :: credentials

text \<open>The keyword arguments of the constructor; \<open>None\<close> is an argument left out.\<close>

record init_args =
  arg_host :: "string option"
  arg_credentials :: credentials
  arg_credentials_file :: "string option"
  arg_scopes :: "string list option"
  arg_channel :: "channel option"
  arg_api_mtls_endpoint :: "string option"
  arg_client_cert_source :: "(unit \<Rightarrow> error + bytes \<times> bytes) option"
  arg_quota_project_id :: "string option"

subsection \<open>Python truth values\<close>

fun truthy_credentials :: "credentials \<Rightarrow> bool" where
  "truthy_credentials NoCredentials = False"
| "truthy_credentials FalseValue = False"
| "truthy_credentials (Credentials n) = True"

fun truthy_str :: "string option \<Rightarrow> bool" where
  "truthy_str None = False"
| "truthy_str (Some s) = (s \<noteq> [])"

text \<open>\<^verbatim>\<open>scopes or AUTH_SCOPES\<close>\<close>

fun scopes_or :: "string list option \<Rightarrow> string list \<Rightarrow> string list" where
  "scopes_or None d = d"
| "scopes_or (Some []) d = d"
| "scopes_or (Some (s # ss)) d = s # ss"

text \<open>The default of the parameter \<^verbatim>\<open>host\<close> (lines 61 and 102).\<close>

fun host_or_default :: "string option \<Rightarrow> string" where
  "host_or_default None = ''iamcredentials.googleapis.com''"
| "host_or_default (Some h) = h"

subsection \<open>Collaborators\<close>

definition record_event :: "event \<Rightarrow> world \<Rightarrow> world" where
  "record_event e w = w\<lparr>trace := trace w @ [e]\<rparr>"

text \<open>
  \<^verbatim>\<open>grpc_helpers_async.create_channel\<close>: raises what the library says, or returns a new
  channel object.
\<close>

definition grpc_helpers_async_create_channel ::
  "library \<Rightarrow> channel_call \<Rightarrow> world \<Rightarrow> (error + channel) \<times> world" where
  "grpc_helpers_async_create_channel lib call w =
     (case channel_error lib (trace w) call of
        Some e \<Rightarrow> (Inl e, record_event (CreateChannelCalled call (Inl e)) w)
      | None \<Rightarrow>
          (Inr (Channel (fresh w)),
           record_event (CreateChannelCalled call (Inr (Channel (fresh w))))
             (w\<lparr>fresh := Suc (fresh w)\<rparr>)))"

text \<open>\<^verbatim>\<open>SslCredentials().ssl_credentials\<close>\<close>

definition default_ssl_credentials ::
  "library \<Rightarrow> world \<Rightarrow> (error + ssl_credentials) \<times> world" where
  "default_ssl_credentials lib w =
     (let r = (case ssl_error lib (trace w) of
                 Some e \<Rightarrow> Inl e
               | None \<Rightarrow> Inr DefaultSslCredentials)
      in (r, record_event (SslCredentialsRead r) w))"

text \<open>
  \<^verbatim>\<open>channel.unary_unary(route, request_serializer=..., response_deserializer=...)\<close>: it only
  builds a callable, so the model takes it to return a new object at every call and not
  to raise.
\<close>

definition unary_unary ::
  "channel \<Rightarrow> string \<Rightarrow> string \<Rightarrow> string \<Rightarrow> world \<Rightarrow> multicallable \<times> world" where
  "unary_unary c route req resp w =
     (let m = \<lparr>mc_id = fresh w, mc_channel = c, mc_route = route,
               mc_request_serializer = req, mc_response_deserializer = resp\<rparr>
      in (m, record_event (UnaryUnaryCalled m) (w\<lparr>fresh := Suc (fresh w)\<rparr>)))"

text \<open>
  Modelled from the spec: the constructor of the base class \<^verbatim>\<open>IAMCredentialsTransport\<close>
  (module \<^verbatim>\<open>.base\<close>), which the sources do not contain. The spec's words are that the
  credentials object and the credentials file path are "mutually exclusive", that misuse
  is a "duplicate-credential-argument" error and that "credential resolution failure" is an
  error of the auth library; the constructor's docstring (lines 143-144) names the
  exception. What the constructor stores in \<^verbatim>\<open>_host\<close> and \<^verbatim>\<open>_credentials\<close>, and whether
  credential resolution fails, is read from the library. An argument counts as passed
  when it is true in Python's sense, the test the transport applies to its own optional
  arguments (lines 89, 146, 153 and 162): \<^verbatim>\<open>None\<close>, the \<^verbatim>\<open>False\<close> of line 149 and the empty
  path do not. The model takes the base constructor to read no property of the instance
  under construction.
\<close>

definition base_init ::
  "library \<Rightarrow> base_call \<Rightarrow> world \<Rightarrow> (error + string \<times> credentials) \<times> world" where
  "base_init lib call w =
     (let r = (if truthy_credentials (bc_credentials call)
                  \<and> truthy_str (bc_credentials_file call)
               then Inl DuplicateCredentialArgs
               else base_fields lib (trace w) call)
      in (r, record_event (BaseInitCalled call r) w))"

subsection \<open>The class method create\_channel (lines 58-97)\<close>

definition create_channel ::
  "library \<Rightarrow> string option \<Rightarrow> credentials \<Rightarrow> string option \<Rightarrow> string list option
     \<Rightarrow> string option \<Rightarrow> kwargs \<Rightarrow> world \<Rightarrow> (error + channel) \<times> world" where
  "create_channel lib host credentials credentials_file scopes quota_project_id kwargs w =
     grpc_helpers_async_create_channel lib
       \<lparr>cc_host = host_or_default host,
        cc_credentials = credentials,
        cc_credentials_file = credentials_file,
        cc_scopes = scopes_or scopes (AUTH_SCOPES lib),
        cc_quota_project_id = quota_project_id,
        cc_kwargs = kwargs\<rparr> w"

subsection \<open>The constructor (lines 99-189)\<close>

text \<open>Lines 154-158.\<close>

definition mtls_host :: "string \<Rightarrow> string" where
  "mtls_host api_mtls_endpoint =
     (if CHR '':'' \<in> set api_mtls_endpoint then api_mtls_endpoint
      else api_mtls_endpoint @ '':443'')"

text \<open>Lines 162-168.\<close>

definition make_ssl_credentials ::
  "library \<Rightarrow> (unit \<Rightarrow> error + bytes \<times> bytes) option \<Rightarrow> world
     \<Rightarrow> (error + ssl_credentials) \<times> world" where
  "make_ssl_credentials lib client_cert_source w =
     (case client_cert_source of
        Some f \<Rightarrow>
          (case f () of
             Inl e \<Rightarrow> (Inl e, record_event (ClientCertSourceCalled (Inl e)) w)
           | Inr (cert, key) \<Rightarrow>
               (Inr (SslChannelCredentials cert key),
                record_event (ClientCertSourceCalled (Inr (cert, key))) w))
      | None \<Rightarrow> default_ssl_credentials lib w)"

text \<open>Lines 181-187: the arguments the base constructor is called with.\<close>

definition base_args :: "library \<Rightarrow> init_args \<Rightarrow> string \<Rightarrow> credentials \<Rightarrow> base_call" where
  "base_args lib a host credentials =
     \<lparr>bc_host = host,
      bc_credentials = credentials,
      bc_credentials_file = arg_credentials_file a,
      bc_scopes = scopes_or (arg_scopes a) (AUTH_SCOPES lib),
      bc_quota_project_id = arg_quota_project_id a\<rparr>"

text \<open>Lines 180-189: the base constructor, then \<^verbatim>\<open>self._stubs = {}\<close>.\<close>

definition finish_init ::
  "library \<Rightarrow> init_args \<Rightarrow> string \<Rightarrow> credentials \<Rightarrow> channel option \<Rightarrow> world
     \<Rightarrow> (error + transport) \<times> world" where
  "finish_init lib a host credentials grpc_channel w =
     (case base_init lib (base_args lib a host credentials) w of
        (Inl e, w1) \<Rightarrow> (Inl e, w1)
      | (Inr (h, c), w1) \<Rightarrow>
          (Inr \<lparr>t_grpc_channel = grpc_channel, t_stubs = fresh w1,
                t_host = h, t_credentials = c\<rparr>,
           w1\<lparr>fresh := Suc (fresh w1), dicts := (dicts w1)(fresh w1 := Map.empty)\<rparr>))"

definition init :: "library \<Rightarrow> init_args \<Rightarrow> world \<Rightarrow> (error + transport) \<times> world" where
  "init lib a w =
     (case arg_channel a of
        Some ch \<Rightarrow> finish_init lib a (host_or_default (arg_host a)) FalseValue (Some ch) w
      | None \<Rightarrow>
          if truthy_str (arg_api_mtls_endpoint a) then
            (let host = mtls_host (the (arg_api_mtls_endpoint a)) in
             case make_ssl_credentials lib (arg_client_cert_source a) w of
               (Inl e, w1) \<Rightarrow> (Inl e, w1)
             | (Inr ssl_credentials, w1) \<Rightarrow>
                 (case create_channel lib (Some host) (arg_credentials a)
                         (arg_credentials_file a)
                         (Some (scopes_or (arg_scopes a) (AUTH_SCOPES lib)))
                         (arg_quota_project_id a)
                         [(''ssl_credentials'', ssl_credentials)] w1 of
                    (Inl e, w2) \<Rightarrow> (Inl e, w2)
                  | (Inr c, w2) \<Rightarrow>
                      finish_init lib a host (arg_credentials a) (Some c) w2))
          else finish_init lib a (host_or_default (arg_host a)) (arg_credentials a) None w)"

subsection \<open>The property grpc\_channel (lines 191-206)\<close>

definition grpc_channel ::
  "library \<Rightarrow> transport \<Rightarrow> world \<Rightarrow> (error + channel) \<times> transport \<times> world" where
  "grpc_channel lib self w =
     (case t_grpc_channel self of
        Some c \<Rightarrow> (Inr c, self, w)
      | None \<Rightarrow>
          (case create_channel lib (Some (t_host self)) (t_credentials self)
                  None None None [] w of
             (Inl e, w1) \<Rightarrow> (Inl e, self, w1)
           | (Inr c, w1) \<Rightarrow> (Inr c, self\<lparr>t_grpc_channel := Some c\<rparr>, w1)))"

subsection \<open>The stub properties (lines 208-319)\<close>

text \<open>
  The four properties have one body, with four sets of literals: look the name up in
  \<^verbatim>\<open>self._stubs\<close>; when it is absent, read \<^verbatim>\<open>self.grpc_channel\<close>, call \<^verbatim>\<open>unary_unary\<close> and
  store the result under the name; return the entry.
\<close>

definition stub_property ::
  "string \<Rightarrow> string \<Rightarrow> string \<Rightarrow> string \<Rightarrow> library \<Rightarrow> transport \<Rightarrow> world
     \<Rightarrow> (error + multicallable) \<times> transport \<times> world" where
  "stub_property name route req resp lib self w =
     (case dicts w (t_stubs self) name of
        Some m \<Rightarrow> (Inr m, self, w)
      | None \<Rightarrow>
          (case grpc_channel lib self w of
             (Inl e, self1, w1) \<Rightarrow> (Inl e, self1, w1)
           | (Inr c, self1, w1) \<Rightarrow>
               (case unary_unary c route req resp w1 of
                  (m, w2) \<Rightarrow>
                    (Inr m, self1,
                     w2\<lparr>dicts := (dicts w2)
                          (t_stubs self1 := (dicts w2 (t_stubs self1))(name \<mapsto> m))\<rparr>))))"

definition generate_access_token ::
  "library \<Rightarrow> transport \<Rightarrow> world \<Rightarrow> (error + multicallable) \<times> transport \<times> world" where
  "generate_access_token =
     stub_property ''generate_access_token''
       ''/google.iam.credentials.v1.IAMCredentials/GenerateAccessToken''
       ''GenerateAccessTokenRequest.serialize''
       ''GenerateAccessTokenResponse.deserialize''"

definition generate_id_token ::
  "library \<Rightarrow> transport \<Rightarrow> world \<Rightarrow> (error + multicallable) \<times> transport \<times> world" where
  "generate_id_token =
     stub_property ''generate_id_token''
       ''/google.iam.credentials.v1.IAMCredentials/GenerateIdToken''
       ''GenerateIdTokenRequest.serialize''
       ''GenerateIdTokenResponse.deserialize''"

definition sign_blob ::
  "library \<Rightarrow> transport \<Rightarrow> world \<Rightarrow> (error + multicallable) \<times> transport \<times> world" where
  "sign_blob =
     stub_property ''sign_blob''
       ''/google.iam.credentials.v1.IAMCredentials/SignBlob''
       ''SignBlobRequest.serialize''
       ''SignBlobResponse.deserialize''"

definition sign_jwt ::
  "library \<Rightarrow> transport \<Rightarrow> world \<Rightarrow> (error + multicallable) \<times> transport \<times> world" where
  "sign_jwt =
     stub_property ''sign_jwt''
       ''/google.iam.credentials.v1.IAMCredentials/SignJwt''
       ''SignJwtRequest.serialize''
       ''SignJwtResponse.deserialize''"

subsection \<open>The lifetime of an instance\<close>

text \<open>
  After construction a caller reads properties, in any order and any number of times; a
  read that raises leaves the instance as the exception found it.
\<close>

datatype rpc = GenerateAccessToken | GenerateIdToken | SignBlob | SignJwt

datatype read = ReadGrpcChannel | ReadStub rpc

fun stub_name :: "rpc \<Rightarrow> string" where
  "stub_name GenerateAccessToken = ''generate_access_token''"
| "stub_name GenerateIdToken = ''generate_id_token''"
| "stub_name SignBlob = ''sign_blob''"
| "stub_name SignJwt = ''sign_jwt''"

fun stub_of :: "rpc \<Rightarrow> library \<Rightarrow> transport \<Rightarrow> world
     \<Rightarrow> (error + multicallable) \<times> transport \<times> world" where
  "stub_of GenerateAccessToken = generate_access_token"
| "stub_of GenerateIdToken = generate_id_token"
| "stub_of SignBlob = sign_blob"
| "stub_of SignJwt = sign_jwt"

fun read_property :: "library \<Rightarrow> read \<Rightarrow> transport \<Rightarrow> world \<Rightarrow> transport \<times> world" where
  "read_property lib ReadGrpcChannel self w = snd (grpc_channel lib self w)"
| "read_property lib (ReadStub r) self w = snd (stub_of r lib self w)"

fun reads :: "library \<Rightarrow> read list \<Rightarrow> transport \<Rightarrow> world \<Rightarrow> transport \<times> world" where
  "reads lib [] self w = (self, w)"
| "reads lib (x # xs) self w =
     (case read_property lib x self w of (self1, w1) \<Rightarrow> reads lib xs self1 w1)"

text \<open>
  Two instances read in any interleaving: \<open>True\<close> is a read of the first instance,
  \<open>False\<close> a read of the second.
\<close>

fun reads2 :: "library \<Rightarrow> (bool \<times> read) list \<Rightarrow> transport \<Rightarrow> transport \<Rightarrow> world
     \<Rightarrow> transport \<times> transport \<times> world" where
  "reads2 lib [] s1 s2 w = (s1, s2, w)"
| "reads2 lib ((b, x) # zs) s1 s2 w =
     (if b then (case read_property lib x s1 w of (s1a, w1) \<Rightarrow> reads2 lib zs s1a s2 w1)
      else (case read_property lib x s2 w of (s2a, w1) \<Rightarrow> reads2 lib zs s1 s2a w1))"

text \<open>What a stretch of the trace created.\<close>

fun is_channel_created :: "event \<Rightarrow> bool" where
  "is_channel_created (CreateChannelCalled call (Inr c)) = True"
| "is_channel_created e = False"

fun is_stub_created :: "string \<Rightarrow> event \<Rightarrow> bool" where
  "is_stub_created route (UnaryUnaryCalled m) = (mc_route m = route)"
| "is_stub_created route e = False"

definition channels_created :: "event list \<Rightarrow> nat" where
  "channels_created es = length (filter is_channel_created es)"

definition stubs_created :: "string \<Rightarrow> event list \<Rightarrow> nat" where
  "stubs_created route es = length (filter (is_stub_created route) es)"

text \<open>The events a step added: the trace after it, without the trace before it.\<close>

definition added :: "world \<Rightarrow> world \<Rightarrow> event list" where
  "added w w1 = drop (length (trace w)) (trace w1)"

text \<open>The calls of \<^verbatim>\<open>grpc_helpers_async.create_channel\<close> in a trace, in order.\<close>

fun channel_calls :: "event list \<Rightarrow> channel_call list" where
  "channel_calls [] = []"
| "channel_calls (CreateChannelCalled call out # es) = call # channel_calls es"
| "channel_calls (e # es) = channel_calls es"

text \<open>The calls of the base constructor in a trace, in order.\<close>

fun base_calls :: "event list \<Rightarrow> base_call list" where
  "base_calls [] = []"
| "base_calls (BaseInitCalled call out # es) = call # base_calls es"
| "base_calls (e # es) = base_calls es"

text \<open>The invocations of \<^verbatim>\<open>client_cert_source\<close> in a trace.\<close>

fun is_cert_call :: "event \<Rightarrow> bool" where
  "is_cert_call (ClientCertSourceCalled out) = True"
| "is_cert_call e = False"

text \<open>The events of lines 162-168: the callback, or the default SSL credentials.\<close>

fun is_ssl_event :: "event \<Rightarrow> bool" where
  "is_ssl_event (ClientCertSourceCalled out) = True"
| "is_ssl_event (SslCredentialsRead out) = True"
| "is_ssl_event e = False"

text \<open>Every host name a trace handed to a collaborator, in order.\<close>

fun hosts_used :: "event list \<Rightarrow> string list" where
  "hosts_used [] = []"
| "hosts_used (CreateChannelCalled call out # es) = cc_host call # hosts_used es"
| "hosts_used (BaseInitCalled call out # es) = bc_host call # hosts_used es"
| "hosts_used (e # es) = hosts_used es"

text \<open>The exception a collaborator call ended with, if it raised.\<close>

fun raised :: "event \<Rightarrow> error option" where
  "raised (ClientCertSourceCalled (Inl e)) = Some e"
| "raised (SslCredentialsRead (Inl e)) = Some e"
| "raised (CreateChannelCalled call (Inl e)) = Some e"
| "raised (BaseInitCalled call (Inl e)) = Some e"
| "raised ev = None"

text \<open>The route each stub property passes to \<^verbatim>\<open>unary_unary\<close> (lines 232, 261, 288, 315).\<close>

fun route :: "rpc \<Rightarrow> string" where
  "route GenerateAccessToken = ''/google.iam.credentials.v1.IAMCredentials/GenerateAccessToken''"
| "route GenerateIdToken = ''/google.iam.credentials.v1.IAMCredentials/GenerateIdToken''"
| "route SignBlob = ''/google.iam.credentials.v1.IAMCredentials/SignBlob''"
| "route SignJwt = ''/google.iam.credentials.v1.IAMCredentials/SignJwt''"

subsection \<open>How reads move an instance and the world\<close>

text \<open>
  What any number of property reads of one instance keep and change: the instance keeps
  its dictionary, and its channel once it has one; the dictionaries of other objects are
  untouched; entries of its own dictionary stay; the trace grows, by one created channel
  exactly when the instance had none before and has one after, and by one stub for a
  route exactly when the instance's dictionary gained the entry of that route's name; and a
  gained entry is a new object, made for its name's route on the instance's channel.
\<close>

definition evolves :: "transport \<Rightarrow> world \<Rightarrow> transport \<Rightarrow> world \<Rightarrow> bool" where
  "evolves self w self1 w1 \<longleftrightarrow>
     t_stubs self1 = t_stubs self \<and> fresh w \<le> fresh w1
   \<and> (\<forall>c. t_grpc_channel self = Some c \<longrightarrow> t_grpc_channel self1 = Some c)
   \<and> (\<forall>a. a \<noteq> t_stubs self \<longrightarrow> dicts w1 a = dicts w a)
   \<and> (\<forall>n m. dicts w (t_stubs self) n = Some m \<longrightarrow> dicts w1 (t_stubs self) n = Some m)
   \<and> (\<exists>es. trace w1 = trace w @ es
          \<and> channels_created es =
              (if t_grpc_channel self = None \<and> t_grpc_channel self1 \<noteq> None then 1 else 0)
          \<and> (\<forall>r. stubs_created (route r) es =
              (if dicts w (t_stubs self) (stub_name r) = None
                  \<and> dicts w1 (t_stubs self) (stub_name r) \<noteq> None then 1 else 0)))
   \<and> (\<forall>n m. dicts w (t_stubs self) n = None \<longrightarrow> dicts w1 (t_stubs self) n = Some m \<longrightarrow>
          (\<exists>r. n = stub_name r \<and> mc_route m = route r \<and> fresh w \<le> mc_id m
             \<and> mc_id m < fresh w1 \<and> t_grpc_channel self1 = Some (mc_channel m)
             \<and> UnaryUnaryCalled m \<in> set (trace w1)))"

text \<open>
  Two dictionaries are separate when they are different objects and hold no stub in
  common: every stub in either is older than the next identity, and no identity occurs in
  both.
\<close>

definition separate :: "nat \<Rightarrow> nat \<Rightarrow> world \<Rightarrow> bool" where
  "separate d1 d2 w \<longleftrightarrow>
     d1 \<noteq> d2
   \<and> (\<forall>n m. dicts w d1 n = Some m \<longrightarrow> mc_id m < fresh w)
   \<and> (\<forall>n m. dicts w d2 n = Some m \<longrightarrow> mc_id m < fresh w)
   \<and> (\<forall>n1 n2 m1 m2. dicts w d1 n1 = Some m1 \<longrightarrow> dicts w d2 n2 = Some m2 \<longrightarrow>
         mc_id m1 \<noteq> mc_id m2)"

subsection \<open>Concrete inputs\<close>

text \<open>
  A library whose channel factory rejects a credentials object together with a
  credentials file and otherwise succeeds, whose default SSL credentials load, and whose
  base constructor stores the host and the credentials it is given.
\<close>

definition example_library :: library where
  "example_library =
     \<lparr>AUTH_SCOPES = [''https://www.googleapis.com/auth/cloud-platform''],
      channel_error = (\<lambda>tr call.
         if truthy_credentials (cc_credentials call) \<and> truthy_str (cc_credentials_file call)
         then Some DuplicateCredentialArgs else None),
      ssl_error = (\<lambda>tr. None),
      base_fields = (\<lambda>tr call. Inr (bc_host call, bc_credentials call))\<rparr>"

text \<open>The same library on a machine where the default SSL credentials cannot be loaded.\<close>

definition no_ssl_library :: library where
  "no_ssl_library = example_library\<lparr>ssl_error := (\<lambda>tr. Some MutualTlsChannelError)\<rparr>"

text \<open>The constructor called with no argument at all.\<close>

definition no_args :: init_args where
  "no_args =
     \<lparr>arg_host = None, arg_credentials = NoCredentials, arg_credentials_file = None,
      arg_scopes = None, arg_channel = None, arg_api_mtls_endpoint = None,
      arg_client_cert_source = None, arg_quota_project_id = None\<rparr>"

definition example_cert_source :: "unit \<Rightarrow> error + bytes \<times> bytes" where
  "example_cert_source u = Inr (''cert'', ''key'')"

text \<open>Only a mutual TLS endpoint, without a port.\<close>

definition mtls_args :: init_args where
  "mtls_args = no_args\<lparr>arg_api_mtls_endpoint := Some ''mtls.example.com''\<rparr>"

text \<open>A mutual TLS endpoint with a port, a host and a certificate callback.\<close>

definition mtls_cert_args :: init_args where
  "mtls_cert_args =
     no_args\<lparr>arg_host := Some ''example.com'',
             arg_api_mtls_endpoint := Some ''mtls.example.com:8443'',
             arg_client_cert_source := Some example_cert_source\<rparr>"

text \<open>A credentials object together with a credentials file.\<close>

definition duplicate_args :: init_args where
  "duplicate_args =
     no_args\<lparr>arg_credentials := Credentials 7, arg_credentials_file := Some ''key.json''\<rparr>"

definition duplicate_mtls_args :: init_args where
  "duplicate_mtls_args =
     duplicate_args\<lparr>arg_api_mtls_endpoint := Some ''mtls.example.com''\<rparr>"




text \<open>A channel made elsewhere, with every argument it makes irrelevant.\<close>

definition channel_args :: init_args where
  "channel_args =
     mtls_cert_args\<lparr>arg_channel := Some (Channel 0), arg_credentials := Credentials 7\<rparr>"

subsection \<open>Concrete runs\<close>

text \<open>
  The instance the constructor returns when called with no argument, and the world it
  leaves.
\<close>

definition plain_instance :: transport where
  "plain_instance =
     \<lparr>t_grpc_channel = None, t_stubs = 1, t_host = ''iamcredentials.googleapis.com'',
      t_credentials = NoCredentials\<rparr>"

definition plain_world :: world where
  "plain_world = snd (init example_library no_args initial_world)"

text \<open>That instance after a read of \<^verbatim>\<open>sign_blob\<close> and a read of \<^verbatim>\<open>grpc_channel\<close>.\<close>

definition used_instance :: transport where
  "used_instance = plain_instance\<lparr>t_grpc_channel := Some (Channel 2)\<rparr>"

definition used_world :: world where
  "used_world =
     snd (reads example_library [ReadStub SignBlob, ReadGrpcChannel] plain_instance plain_world)"

text \<open>The world after one more read, of \<^verbatim>\<open>sign_jwt\<close>.\<close>

definition jwt_world :: world where
  "jwt_world = snd (snd (stub_of SignJwt example_library used_instance used_world))"

text \<open>
  A second instance, constructed with a mutual TLS endpoint after the reads of the first,
  and the world after reads of both.
\<close>

definition second_instance :: transport where
  "second_instance =
     \<lparr>t_grpc_channel = Some (Channel 4), t_stubs = 5, t_host = ''mtls.example.com:443'',
      t_credentials = NoCredentials\<rparr>"

definition second_world :: world where
  "second_world = snd (init example_library mtls_args used_world)"

definition shared_reads :: "(bool \<times> read) list" where
  "shared_reads =
     [(True, ReadStub SignJwt), (False, ReadStub SignBlob), (True, ReadStub SignBlob),
      (False, ReadGrpcChannel)]"

definition shared_world :: world where
  "shared_world =
     snd (snd (reads2 example_library shared_reads used_instance second_instance second_world))"

text \<open>The stub with the given identity, on the given channel, for the given method.\<close>

definition example_stub :: "nat \<Rightarrow> channel \<Rightarrow> string \<Rightarrow> multicallable" where
  "example_stub i c method =
     \<lparr>mc_id = i, mc_channel = c,
      mc_route = ''/google.iam.credentials.v1.IAMCredentials/'' @ method,
      mc_request_serializer = method @ ''Request.serialize'',
      mc_response_deserializer = method @ ''Response.deserialize''\<rparr>"

section \<open>Properties\<close>

subsection \<open>Traces\<close>

lemma record_event_simps [simp]:
  "trace (record_event e w) = trace w @ [e]"
  "fresh (record_event e w) = fresh w"
  "dicts (record_event e w) = dicts w"
  by (simp_all add: record_event_def)

lemma added_append [simp]: "trace w1 = trace w @ es \<Longrightarrow> added w w1 = es"
  by (simp add: added_def)

lemma added_same [simp]: "added w w = []"
  by (simp add: added_def)

lemma base_init_trace:
  "trace (snd (base_init lib call w)) =
     trace w @ [BaseInitCalled call (fst (base_init lib call w))]"
  by (simp add: base_init_def Let_def)

lemma finish_init_trace:
  "trace (snd (finish_init lib a host c g w)) =
     trace w @ [BaseInitCalled (base_args lib a host c)
                  (fst (base_init lib (base_args lib a host c) w))]"
  by (simp add: finish_init_def base_init_def Let_def split: sum.splits prod.splits)

lemma ssl_event_skipped [simp]:
  "is_ssl_event ev \<Longrightarrow> channel_calls (ev # es) = channel_calls es"
  "is_ssl_event ev \<Longrightarrow> base_calls (ev # es) = base_calls es"
  "is_ssl_event ev \<Longrightarrow> hosts_used (ev # es) = hosts_used es"
  by (cases ev; simp)+

lemma make_ssl_trace:
  "\<exists>ev. trace (snd (make_ssl_credentials lib src w)) = trace w @ [ev]
      \<and> is_ssl_event ev
      \<and> is_cert_call ev = (src \<noteq> None)
      \<and> (\<forall>f. src = Some f \<longrightarrow> ev = ClientCertSourceCalled (f ()))
      \<and> raised ev = (case fst (make_ssl_credentials lib src w) of Inl e \<Rightarrow> Some e | Inr s \<Rightarrow> None)"
  by (auto simp: make_ssl_credentials_def default_ssl_credentials_def Let_def
      split: option.splits sum.splits prod.splits)

lemma make_ssl_world:
  "fresh (snd (make_ssl_credentials lib src w)) = fresh w"
  "dicts (snd (make_ssl_credentials lib src w)) = dicts w"
  by (auto simp: make_ssl_credentials_def default_ssl_credentials_def Let_def
      split: option.splits sum.splits prod.splits)

lemma make_ssl_result:
  "fst (make_ssl_credentials lib src w) =
     (case src of
        Some f \<Rightarrow> (case f () of Inl e \<Rightarrow> Inl e
                    | Inr (cert, key) \<Rightarrow> Inr (SslChannelCredentials cert key))
      | None \<Rightarrow> (case ssl_error lib (trace w) of Some e \<Rightarrow> Inl e
                  | None \<Rightarrow> Inr DefaultSslCredentials))"
  by (auto simp: make_ssl_credentials_def default_ssl_credentials_def Let_def
      split: option.splits sum.splits prod.splits)

lemma scopes_or_twice [simp]: "scopes_or (Some (scopes_or s d)) d = scopes_or s d"
  by (cases s; cases d; cases "the s"; simp)

lemma create_channel_trace:
  "trace (snd (create_channel lib host c f s q k w)) =
     trace w @ [CreateChannelCalled
        \<lparr>cc_host = host_or_default host, cc_credentials = c, cc_credentials_file = f,
         cc_scopes = scopes_or s (AUTH_SCOPES lib), cc_quota_project_id = q, cc_kwargs = k\<rparr>
        (fst (create_channel lib host c f s q k w))]"
  by (simp add: create_channel_def grpc_helpers_async_create_channel_def split: option.splits)

lemma create_channel_result:
  "fst (create_channel lib host c f s q k w) =
     (case channel_error lib (trace w)
        \<lparr>cc_host = host_or_default host, cc_credentials = c, cc_credentials_file = f,
         cc_scopes = scopes_or s (AUTH_SCOPES lib), cc_quota_project_id = q, cc_kwargs = k\<rparr> of
        Some e \<Rightarrow> Inl e | None \<Rightarrow> Inr (Channel (fresh w)))"
  by (simp add: create_channel_def grpc_helpers_async_create_channel_def split: option.splits)

lemma create_channel_world:
  "dicts (snd (create_channel lib host c f s q k w)) = dicts w"
  "fresh (snd (create_channel lib host c f s q k w)) =
     (case fst (create_channel lib host c f s q k w) of Inl e \<Rightarrow> fresh w | Inr ch \<Rightarrow> Suc (fresh w))"
  by (simp_all add: create_channel_def grpc_helpers_async_create_channel_def split: option.splits)

lemma channel_calls_append [simp]: "channel_calls (xs @ ys) = channel_calls xs @ channel_calls ys"
  by (induction xs rule: channel_calls.induct) simp_all

lemma base_calls_append [simp]: "base_calls (xs @ ys) = base_calls xs @ base_calls ys"
  by (induction xs rule: base_calls.induct) simp_all

lemma hosts_used_append [simp]: "hosts_used (xs @ ys) = hosts_used xs @ hosts_used ys"
  by (induction xs rule: hosts_used.induct) simp_all

lemma make_ssl_event:
  "trace (snd (make_ssl_credentials lib src w)) =
     trace w @ [case src of
                  Some f \<Rightarrow> ClientCertSourceCalled (f ())
                | None \<Rightarrow> SslCredentialsRead
                    (case ssl_error lib (trace w) of Some e \<Rightarrow> Inl e
                     | None \<Rightarrow> Inr DefaultSslCredentials)]"
  by (auto simp: make_ssl_credentials_def default_ssl_credentials_def Let_def
      split: option.splits sum.splits prod.splits)

lemma init_plain:
  assumes "arg_channel a = None" and "\<not> truthy_str (arg_api_mtls_endpoint a)"
  shows "init lib a w =
     finish_init lib a (host_or_default (arg_host a)) (arg_credentials a) None w"
  using assms by (simp add: init_def)

lemma init_channel:
  assumes "arg_channel a = Some ch"
  shows "init lib a w =
     finish_init lib a (host_or_default (arg_host a)) FalseValue (Some ch) w"
  using assms by (simp add: init_def)

lemma finish_init_added:
  "added w (snd (finish_init lib a host c g w)) =
     [BaseInitCalled (base_args lib a host c)
        (fst (base_init lib (base_args lib a host c) w))]"
  by (rule added_append) (rule finish_init_trace)

lemma finish_init_result:
  "fst (finish_init lib a host c g w) = Inr t \<Longrightarrow> t_grpc_channel t = g \<and> t_stubs t = fresh w"
  by (auto simp: finish_init_def base_init_def Let_def split: sum.splits prod.splits)


lemma init_mtls_unfold:
  assumes "arg_channel a = None" and "truthy_str (arg_api_mtls_endpoint a)"
  shows "init lib a w =
    (case make_ssl_credentials lib (arg_client_cert_source a) w of
       (Inl e, w1) \<Rightarrow> (Inl e, w1)
     | (Inr s, w1) \<Rightarrow>
        (case create_channel lib (Some (mtls_host (the (arg_api_mtls_endpoint a)))) (arg_credentials a)
                (arg_credentials_file a) (Some (scopes_or (arg_scopes a) (AUTH_SCOPES lib)))
                (arg_quota_project_id a) [(''ssl_credentials'', s)] w1 of
           (Inl e, w2) \<Rightarrow> (Inl e, w2)
         | (Inr c, w2) \<Rightarrow> finish_init lib a (mtls_host (the (arg_api_mtls_endpoint a))) (arg_credentials a) (Some c) w2))"
  using assms by (simp add: init_def Let_def)


lemma init_mtls_cases:
  assumes "arg_channel a = None" and "arg_api_mtls_endpoint a = Some ep" and "ep \<noteq> []"
  obtains
    (ssl_fails) ev e w1 where
      "make_ssl_credentials lib (arg_client_cert_source a) w = (Inl e, w1)"
      "init lib a w = (Inl e, w1)"
      "trace w1 = trace w @ [ev]" "is_ssl_event ev" "raised ev = Some e"
      "is_cert_call ev = (arg_client_cert_source a \<noteq> None)"
  | (channel_fails) ev s w1 call e w2 where
      "make_ssl_credentials lib (arg_client_cert_source a) w = (Inr s, w1)"
      "init lib a w = (Inl e, w2)"
      "trace w2 = trace w @ [ev, CreateChannelCalled call (Inl e)]"
      "is_ssl_event ev" "raised ev = None"
      "is_cert_call ev = (arg_client_cert_source a \<noteq> None)"
      "call = \<lparr>cc_host = mtls_host ep, cc_credentials = arg_credentials a,
               cc_credentials_file = arg_credentials_file a,
               cc_scopes = scopes_or (arg_scopes a) (AUTH_SCOPES lib),
               cc_quota_project_id = arg_quota_project_id a,
               cc_kwargs = [(''ssl_credentials'', s)]\<rparr>"
      "channel_error lib (trace w1) call = Some e"
      "trace w1 = trace w @ [ev]"
  | (created) ev s w1 call c w2 where
      "make_ssl_credentials lib (arg_client_cert_source a) w = (Inr s, w1)"
      "init lib a w = finish_init lib a (mtls_host ep) (arg_credentials a) (Some c) w2"
      "trace w2 = trace w @ [ev, CreateChannelCalled call (Inr c)]"
      "is_ssl_event ev" "raised ev = None"
      "is_cert_call ev = (arg_client_cert_source a \<noteq> None)"
      "call = \<lparr>cc_host = mtls_host ep, cc_credentials = arg_credentials a,
               cc_credentials_file = arg_credentials_file a,
               cc_scopes = scopes_or (arg_scopes a) (AUTH_SCOPES lib),
               cc_quota_project_id = arg_quota_project_id a,
               cc_kwargs = [(''ssl_credentials'', s)]\<rparr>"
      "channel_error lib (trace w1) call = None"
      "c = Channel (fresh w)" "fresh w2 = Suc (fresh w)" "dicts w2 = dicts w"
      "trace w1 = trace w @ [ev]"
proof -
  let ?src = "arg_client_cert_source a"
  let ?sc = "scopes_or (arg_scopes a) (AUTH_SCOPES lib)"
  obtain ev where ev: "trace (snd (make_ssl_credentials lib ?src w)) = trace w @ [ev]"
     "is_ssl_event ev" "is_cert_call ev = (?src \<noteq> None)"
     and rev: "raised ev = (case fst (make_ssl_credentials lib ?src w) of Inl e \<Rightarrow> Some e | Inr s \<Rightarrow> None)"
    using make_ssl_trace[of lib ?src w] by (elim exE conjE)
  obtain r w1 where ssl: "make_ssl_credentials lib ?src w = (r, w1)"
    by (cases "make_ssl_credentials lib ?src w")
  have w1: "trace w1 = trace w @ [ev]" "fresh w1 = fresh w" "dicts w1 = dicts w"
    using ev(1) make_ssl_world[of lib ?src w] ssl by simp_all
  have ep: "truthy_str (arg_api_mtls_endpoint a)" "the (arg_api_mtls_endpoint a) = ep"
    using assms by simp_all
  note unf = init_mtls_unfold[OF assms(1) ep(1), of lib w, unfolded ep(2) ssl]
  show thesis
  proof (cases r)
    case (Inl e)
    have 1: "make_ssl_credentials lib ?src w = (Inl e, w1)" using ssl Inl by simp
    have 2: "init lib a w = (Inl e, w1)" using unf Inl by simp
    have 3: "raised ev = Some e" using rev 1 by simp
    show thesis by (rule ssl_fails[OF 1 2 w1(1) ev(2) 3 ev(3)])
  next
    case (Inr s)
    let ?call = "\<lparr>cc_host = mtls_host ep, cc_credentials = arg_credentials a,
               cc_credentials_file = arg_credentials_file a,
               cc_scopes = ?sc,
               cc_quota_project_id = arg_quota_project_id a,
               cc_kwargs = [(''ssl_credentials'', s)]\<rparr>"
    let ?cc = "create_channel lib (Some (mtls_host ep)) (arg_credentials a)
                (arg_credentials_file a) (Some ?sc) (arg_quota_project_id a)
                [(''ssl_credentials'', s)] w1"
    have 1: "make_ssl_credentials lib ?src w = (Inr s, w1)" using ssl Inr by simp
    have 5: "raised ev = None" using rev 1 by simp
    obtain r2 w2 where cc: "?cc = (r2, w2)" by (cases ?cc)
    have t2: "trace w2 = trace w1 @ [CreateChannelCalled ?call r2]"
      using create_channel_trace[of lib "Some (mtls_host ep)" "arg_credentials a"
          "arg_credentials_file a" "Some ?sc" "arg_quota_project_id a"
          "[(''ssl_credentials'', s)]" w1] by (simp add: cc)
    have r2: "r2 = (case channel_error lib (trace w1) ?call of
                     Some e \<Rightarrow> Inl e | None \<Rightarrow> Inr (Channel (fresh w1)))"
      using create_channel_result[of lib "Some (mtls_host ep)" "arg_credentials a"
          "arg_credentials_file a" "Some ?sc" "arg_quota_project_id a"
          "[(''ssl_credentials'', s)]" w1] by (simp add: cc)
    have d2: "dicts w2 = dicts w1"
      using create_channel_world(1)[of lib "Some (mtls_host ep)" "arg_credentials a"
          "arg_credentials_file a" "Some ?sc" "arg_quota_project_id a"
          "[(''ssl_credentials'', s)]" w1] by (simp add: cc)
    have f2: "fresh w2 = (case r2 of Inl e \<Rightarrow> fresh w1 | Inr ch \<Rightarrow> Suc (fresh w1))"
      using create_channel_world(2)[of lib "Some (mtls_host ep)" "arg_credentials a"
          "arg_credentials_file a" "Some ?sc" "arg_quota_project_id a"
          "[(''ssl_credentials'', s)]" w1] by (simp add: cc)
    show thesis
    proof (cases "channel_error lib (trace w1) ?call")
      case (Some e)
      have r2e: "r2 = Inl e" using r2 Some by simp
      have 2: "init lib a w = (Inl e, w2)" using unf Inr cc r2e by simp
      have 3: "trace w2 = trace w @ [ev, CreateChannelCalled ?call (Inl e)]"
        using t2 w1(1) r2e by simp
      show thesis by (rule channel_fails[OF 1 2 3 ev(2) 5 ev(3) refl Some w1(1)])
    next
      case None
      have r2c: "r2 = Inr (Channel (fresh w))" using r2 None w1(2) by simp
      have 2: "init lib a w = finish_init lib a (mtls_host ep) (arg_credentials a) (Some (Channel (fresh w))) w2"
        using unf Inr cc r2c by simp
      have 3: "trace w2 = trace w @ [ev, CreateChannelCalled ?call (Inr (Channel (fresh w)))]"
        using t2 w1(1) r2c by simp
      have 4: "fresh w2 = Suc (fresh w)" using f2 r2c w1(2) by simp
      have 6: "dicts w2 = dicts w" using d2 w1(3) by simp
      show thesis by (rule created[OF 1 2 3 ev(2) 5 ev(3) refl None refl 4 6 w1(1)])
    qed
  qed
qed


lemma init_mtls_added:
  assumes "arg_channel a = None" and "arg_api_mtls_endpoint a = Some ep" and "ep \<noteq> []"
  obtains
    (ssl_fails) ev e where
      "fst (make_ssl_credentials lib (arg_client_cert_source a) w) = Inl e"
      "fst (init lib a w) = Inl e"
      "added w (snd (init lib a w)) = [ev]"
      "is_ssl_event ev" "raised ev = Some e"
      "ev = (case arg_client_cert_source a of
               Some f \<Rightarrow> ClientCertSourceCalled (f ())
             | None \<Rightarrow> SslCredentialsRead
                 (case ssl_error lib (trace w) of Some e \<Rightarrow> Inl e
                  | None \<Rightarrow> Inr DefaultSslCredentials))"
  | (channel_fails) ev s call e where
      "fst (make_ssl_credentials lib (arg_client_cert_source a) w) = Inr s"
      "fst (init lib a w) = Inl e"
      "added w (snd (init lib a w)) = [ev, CreateChannelCalled call (Inl e)]"
      "is_ssl_event ev" "raised ev = None"
      "ev = (case arg_client_cert_source a of
               Some f \<Rightarrow> ClientCertSourceCalled (f ())
             | None \<Rightarrow> SslCredentialsRead
                 (case ssl_error lib (trace w) of Some e \<Rightarrow> Inl e
                  | None \<Rightarrow> Inr DefaultSslCredentials))"
      "call = \<lparr>cc_host = mtls_host ep, cc_credentials = arg_credentials a,
               cc_credentials_file = arg_credentials_file a,
               cc_scopes = scopes_or (arg_scopes a) (AUTH_SCOPES lib),
               cc_quota_project_id = arg_quota_project_id a,
               cc_kwargs = [(''ssl_credentials'', s)]\<rparr>"
      "channel_error lib (trace w @ [ev]) call = Some e"
  | (created) ev s call w2 where
      "fst (make_ssl_credentials lib (arg_client_cert_source a) w) = Inr s"
      "init lib a w = finish_init lib a (mtls_host ep) (arg_credentials a)
                        (Some (Channel (fresh w))) w2"
      "added w (snd (init lib a w)) =
         [ev, CreateChannelCalled call (Inr (Channel (fresh w))),
          BaseInitCalled (base_args lib a (mtls_host ep) (arg_credentials a))
            (fst (base_init lib (base_args lib a (mtls_host ep) (arg_credentials a)) w2))]"
      "is_ssl_event ev" "raised ev = None"
      "ev = (case arg_client_cert_source a of
               Some f \<Rightarrow> ClientCertSourceCalled (f ())
             | None \<Rightarrow> SslCredentialsRead
                 (case ssl_error lib (trace w) of Some e \<Rightarrow> Inl e
                  | None \<Rightarrow> Inr DefaultSslCredentials))"
      "call = \<lparr>cc_host = mtls_host ep, cc_credentials = arg_credentials a,
               cc_credentials_file = arg_credentials_file a,
               cc_scopes = scopes_or (arg_scopes a) (AUTH_SCOPES lib),
               cc_quota_project_id = arg_quota_project_id a,
               cc_kwargs = [(''ssl_credentials'', s)]\<rparr>"
      "channel_error lib (trace w @ [ev]) call = None"
      "fresh w2 = Suc (fresh w)" "dicts w2 = dicts w"
  using assms
proof (cases rule: init_mtls_cases [where lib = lib and w = w])
  case (ssl_fails ev e w1)
  have 1: "fst (make_ssl_credentials lib (arg_client_cert_source a) w) = Inl e"
    using ssl_fails(1) by simp
  have 2: "fst (init lib a w) = Inl e" using ssl_fails(2) by simp
  have 3: "added w (snd (init lib a w)) = [ev]"
    using ssl_fails(2,3) by simp
  have 4: "ev = (case arg_client_cert_source a of
               Some f \<Rightarrow> ClientCertSourceCalled (f ())
             | None \<Rightarrow> SslCredentialsRead
                 (case ssl_error lib (trace w) of Some e \<Rightarrow> Inl e
                  | None \<Rightarrow> Inr DefaultSslCredentials))"
    using make_ssl_event [of lib "arg_client_cert_source a" w] ssl_fails(1,3) by simp
  show ?thesis
    by (rule that(1) [OF 1 2 3 ssl_fails(4) ssl_fails(5) 4])
next
  case (channel_fails ev s w1 call e w2)
  have 1: "fst (make_ssl_credentials lib (arg_client_cert_source a) w) = Inr s"
    using channel_fails(1) by simp
  have 2: "fst (init lib a w) = Inl e" using channel_fails(2) by simp
  have 3: "added w (snd (init lib a w)) = [ev, CreateChannelCalled call (Inl e)]"
    using channel_fails(2,3) by simp
  have 4: "ev = (case arg_client_cert_source a of
               Some f \<Rightarrow> ClientCertSourceCalled (f ())
             | None \<Rightarrow> SslCredentialsRead
                 (case ssl_error lib (trace w) of Some e \<Rightarrow> Inl e
                  | None \<Rightarrow> Inr DefaultSslCredentials))"
    using make_ssl_event [of lib "arg_client_cert_source a" w] channel_fails(1,9) by simp
  have 5: "channel_error lib (trace w @ [ev]) call = Some e"
    using channel_fails(8,9) by simp
  show ?thesis
    by (rule that(2) [OF 1 2 3 channel_fails(4) channel_fails(5) 4 channel_fails(7) 5])
next
  case (created ev s w1 call c w2)
  have 1: "fst (make_ssl_credentials lib (arg_client_cert_source a) w) = Inr s"
    using created(1) by simp
  have 2: "init lib a w = finish_init lib a (mtls_host ep) (arg_credentials a)
                        (Some (Channel (fresh w))) w2"
    using created(2,9) by simp
  have "trace (snd (init lib a w)) = trace w @
     [ev, CreateChannelCalled call (Inr (Channel (fresh w))),
      BaseInitCalled (base_args lib a (mtls_host ep) (arg_credentials a))
        (fst (base_init lib (base_args lib a (mtls_host ep) (arg_credentials a)) w2))]"
    using created(2,3,9) by (simp add: finish_init_trace)
  then have 3: "added w (snd (init lib a w)) =
     [ev, CreateChannelCalled call (Inr (Channel (fresh w))),
      BaseInitCalled (base_args lib a (mtls_host ep) (arg_credentials a))
        (fst (base_init lib (base_args lib a (mtls_host ep) (arg_credentials a)) w2))]"
    by (rule added_append)
  have 4: "ev = (case arg_client_cert_source a of
               Some f \<Rightarrow> ClientCertSourceCalled (f ())
             | None \<Rightarrow> SslCredentialsRead
                 (case ssl_error lib (trace w) of Some e \<Rightarrow> Inl e
                  | None \<Rightarrow> Inr DefaultSslCredentials))"
    using make_ssl_event [of lib "arg_client_cert_source a" w] created(1,12) by simp
  have 5: "channel_error lib (trace w @ [ev]) call = None"
    using created(8,12) by simp
  show ?thesis
    by (rule that(3) [OF 1 2 3 created(4) created(5) 4 created(7) 5 created(10) created(11)])
qed

lemma channel_args_run:
  "init example_library channel_args initial_world =
     (Inr \<lparr>t_grpc_channel = Some (Channel 0), t_stubs = 1, t_host = ''example.com'',
           t_credentials = FalseValue\<rparr>,
      \<lparr>trace = [BaseInitCalled
                 \<lparr>bc_host = ''example.com'', bc_credentials = FalseValue,
                  bc_credentials_file = None,
                  bc_scopes = [''https://www.googleapis.com/auth/cloud-platform''],
                  bc_quota_project_id = None\<rparr>
                 (Inr (''example.com'', FalseValue))],
       fresh = 2, dicts = (\<lambda>_. Map.empty)(1 := Map.empty)\<rparr>)"
  by (simp add: init_def finish_init_def base_init_def base_args_def channel_args_def
      mtls_cert_args_def no_args_def example_library_def initial_world_def Let_def record_event_def)

subsection \<open>A supplied channel\<close>

text \<open>
  Claim C9. When a channel is passed to the constructor it becomes the channel of the
  instance; the base constructor is called with \<^verbatim>\<open>False\<close> for the credentials, and it is the
  only collaborator called (no channel is created, no certificate callback runs); so the
  arguments \<^verbatim>\<open>credentials\<close>, \<^verbatim>\<open>api_mtls_endpoint\<close> and \<^verbatim>\<open>client_cert_source\<close> can be replaced by
  any other values without changing the result or the world.
\<close>

theorem supplied_channel_takes_precedence:
  assumes "arg_channel a = Some ch"
  shows "init lib (a\<lparr>arg_credentials := c, arg_api_mtls_endpoint := ep,
                     arg_client_cert_source := src\<rparr>) w = init lib a w
       \<and> (\<forall>t. fst (init lib a w) = Inr t \<longrightarrow> t_grpc_channel t = Some ch)
       \<and> added w (snd (init lib a w)) =
           [BaseInitCalled (base_args lib a (host_or_default (arg_host a)) FalseValue)
              (fst (base_init lib (base_args lib a (host_or_default (arg_host a)) FalseValue) w))]
       \<and> bc_credentials (base_args lib a (host_or_default (arg_host a)) FalseValue) = FalseValue"
proof -
  have 1: "init lib (a\<lparr>arg_credentials := c, arg_api_mtls_endpoint := ep,
                       arg_client_cert_source := src\<rparr>) w = init lib a w"
    using assms by (simp add: init_def finish_init_def base_args_def)
  have 2: "\<forall>t. fst (init lib a w) = Inr t \<longrightarrow> t_grpc_channel t = Some ch"
    using assms by (auto simp: init_def finish_init_def split: sum.splits prod.splits)
  have "trace (snd (init lib a w)) = trace w @
           [BaseInitCalled (base_args lib a (host_or_default (arg_host a)) FalseValue)
              (fst (base_init lib (base_args lib a (host_or_default (arg_host a)) FalseValue) w))]"
    using assms by (simp add: init_def finish_init_trace)
  then have 3: "added w (snd (init lib a w)) =
           [BaseInitCalled (base_args lib a (host_or_default (arg_host a)) FalseValue)
              (fst (base_init lib (base_args lib a (host_or_default (arg_host a)) FalseValue) w))]"
    by (rule added_append)
  have 4: "bc_credentials (base_args lib a (host_or_default (arg_host a)) FalseValue) = FalseValue"
    by (simp add: base_args_def)
  show ?thesis using 1 2 3 4 by blast
qed

theorem supplied_channel_takes_precedence_witness:
  "arg_channel channel_args = Some (Channel 0)
   \<and> init example_library
        (channel_args\<lparr>arg_credentials := NoCredentials, arg_api_mtls_endpoint := None,
                      arg_client_cert_source := None\<rparr>) initial_world
      = init example_library channel_args initial_world
   \<and> fst (init example_library channel_args initial_world)
      = Inr \<lparr>t_grpc_channel = Some (Channel 0), t_stubs = 1, t_host = ''example.com'',
             t_credentials = FalseValue\<rparr>
   \<and> map bc_credentials (base_calls (added initial_world
          (snd (init example_library channel_args initial_world)))) = [FalseValue]
   \<and> channel_calls (added initial_world
          (snd (init example_library channel_args initial_world))) = []"
proof -
  have h: "arg_channel channel_args = Some (Channel 0)"
    by (simp add: channel_args_def)
  note t = supplied_channel_takes_precedence [OF h, where lib = example_library
      and c = NoCredentials and ep = None and src = None and w = initial_world]
  have r: "fst (init example_library channel_args initial_world)
      = Inr \<lparr>t_grpc_channel = Some (Channel 0), t_stubs = 1, t_host = ''example.com'',
             t_credentials = FalseValue\<rparr>"
    by (simp add: channel_args_run)
  show ?thesis using h t r by (simp add: base_args_def)
qed

subsection \<open>The port of the mutual TLS endpoint\<close>

text \<open>
  Claim C8. With no channel and a non-empty \<^verbatim>\<open>api_mtls_endpoint\<close>, once the SSL credentials are
  there the channel factory is called exactly once, and the host it receives is the
  endpoint with \<^verbatim>\<open>:443\<close> appended when the endpoint holds no colon, and the endpoint
  verbatim when it holds one.
\<close>

theorem mtls_endpoint_port:
  assumes "arg_channel a = None" and "arg_api_mtls_endpoint a = Some ep" and "ep \<noteq> []"
  shows "map cc_host (channel_calls (added w (snd (init lib a w)))) =
     (case fst (make_ssl_credentials lib (arg_client_cert_source a) w) of
        Inl e \<Rightarrow> []
      | Inr s \<Rightarrow> [if CHR '':'' \<in> set ep then ep else ep @ '':443''])"
  using assms
proof (cases rule: init_mtls_cases [where lib = lib and w = w])
  case (ssl_fails ev e w1)
  then show ?thesis by simp
next
  case (channel_fails ev s w1 call e w2)
  then show ?thesis by (simp add: mtls_host_def)
next
  case (created ev s w1 call c w2)
  have "trace (snd (init lib a w)) = trace w @
     [ev, CreateChannelCalled call (Inr c),
      BaseInitCalled (base_args lib a (mtls_host ep) (arg_credentials a))
        (fst (base_init lib (base_args lib a (mtls_host ep) (arg_credentials a)) w2))]"
    using created(2,3) by (simp add: finish_init_trace)
  then have "added w (snd (init lib a w)) =
     [ev, CreateChannelCalled call (Inr c),
      BaseInitCalled (base_args lib a (mtls_host ep) (arg_credentials a))
        (fst (base_init lib (base_args lib a (mtls_host ep) (arg_credentials a)) w2))]"
    by (rule added_append)
  with created show ?thesis by (simp add: mtls_host_def)
qed

theorem mtls_endpoint_port_witness:
  "arg_channel mtls_args = None \<and> arg_api_mtls_endpoint mtls_args = Some ''mtls.example.com''
   \<and> ''mtls.example.com'' \<noteq> []
   \<and> map cc_host (channel_calls (added initial_world
        (snd (init example_library mtls_args initial_world)))) = [''mtls.example.com:443'']
   \<and> arg_channel mtls_cert_args = None
   \<and> arg_api_mtls_endpoint mtls_cert_args = Some ''mtls.example.com:8443''
   \<and> map cc_host (channel_calls (added initial_world
        (snd (init example_library mtls_cert_args initial_world)))) = [''mtls.example.com:8443'']"
proof -
  have h: "arg_channel mtls_args = None"
     "arg_api_mtls_endpoint mtls_args = Some ''mtls.example.com''" "''mtls.example.com'' \<noteq> []"
    by (simp_all add: mtls_args_def no_args_def)
  have g: "arg_channel mtls_cert_args = None"
     "arg_api_mtls_endpoint mtls_cert_args = Some ''mtls.example.com:8443''"
     "''mtls.example.com:8443'' \<noteq> []"
    by (simp_all add: mtls_cert_args_def no_args_def)
  have s1: "fst (make_ssl_credentials example_library (arg_client_cert_source mtls_args)
               initial_world) = Inr DefaultSslCredentials"
    by (simp add: make_ssl_result mtls_args_def no_args_def example_library_def)
  have s2: "fst (make_ssl_credentials example_library (arg_client_cert_source mtls_cert_args)
               initial_world) = Inr (SslChannelCredentials ''cert'' ''key'')"
    by (simp add: make_ssl_result mtls_cert_args_def no_args_def example_cert_source_def)
  show ?thesis
    using h g mtls_endpoint_port [OF h, where lib = example_library and w = initial_world]
      mtls_endpoint_port [OF g, where lib = example_library and w = initial_world]
    by (simp add: s1 s2)
qed

lemma mtls_host_take: "take (length ep) (mtls_host ep) = ep"
  by (simp add: mtls_host_def)

lemma init_host_irrelevant:
  assumes "arg_channel a = None" and "truthy_str (arg_api_mtls_endpoint a)"
  shows "init lib (a\<lparr>arg_host := h\<rparr>) w = init lib a w"
  using assms
  by (simp add: init_def finish_init_def base_args_def Let_def
      cong: prod.case_cong sum.case_cong)

subsection \<open>The mutual TLS endpoint and the host\<close>

text \<open>
  Claim C6. With no channel and a non-empty \<^verbatim>\<open>api_mtls_endpoint\<close>, the host argument has no
  effect at all: the constructor returns the same result and leaves the same world for
  every host. Every host name the constructor hands to a collaborator is the endpoint (it
  begins with the endpoint value; lines 154-158 add the port \<^verbatim>\<open>:443\<close> to an endpoint without
  one), and an instance that is constructed holds the channel created for that host.
\<close>

theorem mtls_endpoint_overrides_host:
  assumes "arg_channel a = None" and "arg_api_mtls_endpoint a = Some ep" and "ep \<noteq> []"
  shows "init lib (a\<lparr>arg_host := h\<rparr>) w = init lib a w
       \<and> set (hosts_used (added w (snd (init lib a w)))) \<subseteq> {mtls_host ep}
       \<and> take (length ep) (mtls_host ep) = ep
       \<and> (\<forall>t. fst (init lib a w) = Inr t \<longrightarrow>
             t_grpc_channel t = Some (Channel (fresh w))
           \<and> map cc_host (channel_calls (added w (snd (init lib a w)))) = [mtls_host ep])"
proof -
  have 1: "init lib (a\<lparr>arg_host := h\<rparr>) w = init lib a w"
    using assms by (simp add: init_host_irrelevant)
  have 2: "set (hosts_used (added w (snd (init lib a w)))) \<subseteq> {mtls_host ep}
       \<and> (\<forall>t. fst (init lib a w) = Inr t \<longrightarrow>
             t_grpc_channel t = Some (Channel (fresh w))
           \<and> map cc_host (channel_calls (added w (snd (init lib a w)))) = [mtls_host ep])"
    using assms
  proof (cases rule: init_mtls_added [where lib = lib and w = w])
    case (ssl_fails ev e)
    then show ?thesis by simp
  next
    case (channel_fails ev s call e)
    then show ?thesis by simp
  next
    case (created ev s call w2)
    have "\<forall>t. fst (init lib a w) = Inr t \<longrightarrow> t_grpc_channel t = Some (Channel (fresh w))"
      using created(2) finish_init_result by metis
    with created show ?thesis by (simp add: base_args_def)
  qed
  show ?thesis using 1 2 mtls_host_take by blast
qed


lemmas run_defs =
  init_def finish_init_def base_init_def base_args_def create_channel_def
  grpc_helpers_async_create_channel_def make_ssl_credentials_def
  default_ssl_credentials_def mtls_host_def record_event_def Let_def
  example_library_def no_ssl_library_def initial_world_def no_args_def mtls_args_def
  mtls_cert_args_def duplicate_args_def duplicate_mtls_args_def channel_args_def
  example_cert_source_def added_def

lemma mtls_cert_args_result:
  "fst (init example_library mtls_cert_args initial_world) =
     Inr \<lparr>t_grpc_channel = Some (Channel 1), t_stubs = 2,
           t_host = ''mtls.example.com:8443'', t_credentials = NoCredentials\<rparr>"
  by (simp add: run_defs)

lemma mtls_args_hosts:
  "hosts_used (added initial_world (snd (init example_library mtls_args initial_world))) =
     [''mtls.example.com:443'', ''mtls.example.com:443'']"
  by (simp add: run_defs)

theorem mtls_endpoint_overrides_host_witness:
  "arg_channel mtls_cert_args = None
   \<and> arg_api_mtls_endpoint mtls_cert_args = Some ''mtls.example.com:8443''
   \<and> ''mtls.example.com:8443'' \<noteq> []
   \<and> arg_host mtls_cert_args = Some ''example.com''
   \<and> init example_library (mtls_cert_args\<lparr>arg_host := None\<rparr>) initial_world
       = init example_library mtls_cert_args initial_world
   \<and> fst (init example_library mtls_cert_args initial_world) =
       Inr \<lparr>t_grpc_channel = Some (Channel 1), t_stubs = 2,
             t_host = ''mtls.example.com:8443'', t_credentials = NoCredentials\<rparr>
   \<and> map cc_host (channel_calls (added initial_world
         (snd (init example_library mtls_cert_args initial_world)))) = [''mtls.example.com:8443'']"
proof -
  have g: "arg_channel mtls_cert_args = None"
     "arg_api_mtls_endpoint mtls_cert_args = Some ''mtls.example.com:8443''"
     "''mtls.example.com:8443'' \<noteq> []"
    by (simp_all add: mtls_cert_args_def no_args_def)
  have h: "arg_host mtls_cert_args = Some ''example.com''"
    by (simp add: mtls_cert_args_def no_args_def)
  show ?thesis
    using g h mtls_cert_args_result
      mtls_endpoint_overrides_host [OF g, where lib = example_library and w = initial_world
        and h = None]
    by (simp add: mtls_host_def)
qed

subsection \<open>The SSL credentials of the mutual TLS channel\<close>

text \<open>
  Claim C7. With no channel and a non-empty \<^verbatim>\<open>api_mtls_endpoint\<close>: when a certificate callback
  is given and returns a pair of byte strings, the callback is invoked exactly once, the
  default SSL credentials are not read, and the channel factory is called once with
  \<^verbatim>\<open>ssl_credentials\<close> built from that pair as certificate chain and private key; when no
  callback is given and the default SSL credentials load, no callback runs and the channel
  factory is called once with the default SSL credentials.
\<close>

theorem mtls_ssl_credentials:
  assumes "arg_channel a = None" and "arg_api_mtls_endpoint a = Some ep" and "ep \<noteq> []"
  shows "(\<forall>f cert key. arg_client_cert_source a = Some f \<and> f () = Inr (cert, key) \<longrightarrow>
            filter is_ssl_event (added w (snd (init lib a w)))
              = [ClientCertSourceCalled (Inr (cert, key))]
          \<and> map cc_kwargs (channel_calls (added w (snd (init lib a w))))
              = [[(''ssl_credentials'', SslChannelCredentials cert key)]])
       \<and> (arg_client_cert_source a = None \<and> ssl_error lib (trace w) = None \<longrightarrow>
            filter is_ssl_event (added w (snd (init lib a w)))
              = [SslCredentialsRead (Inr DefaultSslCredentials)]
          \<and> map cc_kwargs (channel_calls (added w (snd (init lib a w))))
              = [[(''ssl_credentials'', DefaultSslCredentials)]])"
  using assms
proof (cases rule: init_mtls_added [where lib = lib and w = w])
  case (ssl_fails ev e)
  then show ?thesis by (auto simp: make_ssl_result split: option.splits)
next
  case (channel_fails ev s call e)
  then show ?thesis by (auto simp: make_ssl_result split: option.splits)
next
  case (created ev s call w2)
  then show ?thesis by (auto simp: make_ssl_result split: option.splits)
qed


theorem mtls_ssl_credentials_witness:
  "arg_channel mtls_cert_args = None
   \<and> arg_api_mtls_endpoint mtls_cert_args = Some ''mtls.example.com:8443''
   \<and> ''mtls.example.com:8443'' \<noteq> []
   \<and> arg_client_cert_source mtls_cert_args = Some example_cert_source
   \<and> example_cert_source () = Inr (''cert'', ''key'')
   \<and> filter is_ssl_event (added initial_world
         (snd (init example_library mtls_cert_args initial_world)))
       = [ClientCertSourceCalled (Inr (''cert'', ''key''))]
   \<and> map cc_kwargs (channel_calls (added initial_world
         (snd (init example_library mtls_cert_args initial_world))))
       = [[(''ssl_credentials'', SslChannelCredentials ''cert'' ''key'')]]
   \<and> arg_channel mtls_args = None
   \<and> arg_api_mtls_endpoint mtls_args = Some ''mtls.example.com''
   \<and> arg_client_cert_source mtls_args = None
   \<and> ssl_error example_library (trace initial_world) = None
   \<and> filter is_ssl_event (added initial_world
         (snd (init example_library mtls_args initial_world)))
       = [SslCredentialsRead (Inr DefaultSslCredentials)]
   \<and> map cc_kwargs (channel_calls (added initial_world
         (snd (init example_library mtls_args initial_world))))
       = [[(''ssl_credentials'', DefaultSslCredentials)]]"
proof -
  have g: "arg_channel mtls_cert_args = None"
     "arg_api_mtls_endpoint mtls_cert_args = Some ''mtls.example.com:8443''"
     "''mtls.example.com:8443'' \<noteq> []"
    by (simp_all add: mtls_cert_args_def no_args_def)
  have g': "arg_client_cert_source mtls_cert_args = Some example_cert_source"
     "example_cert_source () = Inr (''cert'', ''key'')"
    by (simp_all add: mtls_cert_args_def no_args_def example_cert_source_def)
  have h: "arg_channel mtls_args = None"
     "arg_api_mtls_endpoint mtls_args = Some ''mtls.example.com''" "''mtls.example.com'' \<noteq> []"
    by (simp_all add: mtls_args_def no_args_def)
  have h': "arg_client_cert_source mtls_args = None"
     "ssl_error example_library (trace initial_world) = None"
    by (simp_all add: mtls_args_def no_args_def example_library_def)
  show ?thesis
    using g g' h h'
      mtls_ssl_credentials [OF g, where lib = example_library and w = initial_world]
      mtls_ssl_credentials [OF h, where lib = example_library and w = initial_world]
    by simp
qed

lemma create_channel_added:
  "added w (snd (create_channel lib host c f s q k w)) =
     [CreateChannelCalled
        \<lparr>cc_host = host_or_default host, cc_credentials = c, cc_credentials_file = f,
         cc_scopes = scopes_or s (AUTH_SCOPES lib), cc_quota_project_id = q, cc_kwargs = k\<rparr>
        (fst (create_channel lib host c f s q k w))]"
  by (rule added_append) (rule create_channel_trace)

subsection \<open>The default host\<close>

text \<open>
  Claim C4, as amended. When \<^verbatim>\<open>create_channel\<close> is called without a host, the host handed to
  the channel factory is \<^verbatim>\<open>iamcredentials.googleapis.com\<close>. When the constructor is called
  without a host, that name is the one host handed to a collaborator (the base
  constructor), unless no channel is supplied and a non-empty \<^verbatim>\<open>api_mtls_endpoint\<close> is given:
  then every host handed on is the endpoint, with its port.
\<close>

theorem default_host:
  assumes "arg_host a = None"
  shows "hosts_used (added w (snd (create_channel lib None c f s q k w)))
           = [''iamcredentials.googleapis.com'']
       \<and> (arg_channel a \<noteq> None \<or> \<not> truthy_str (arg_api_mtls_endpoint a) \<longrightarrow>
            hosts_used (added w (snd (init lib a w))) = [''iamcredentials.googleapis.com''])
       \<and> (arg_channel a = None \<and> truthy_str (arg_api_mtls_endpoint a) \<longrightarrow>
            set (hosts_used (added w (snd (init lib a w))))
              \<subseteq> {mtls_host (the (arg_api_mtls_endpoint a))})"
proof -
  have 1: "hosts_used (added w (snd (create_channel lib None c f s q k w)))
           = [''iamcredentials.googleapis.com'']"
    by (simp add: create_channel_added)
  have 2: "hosts_used (added w (snd (init lib a w))) = [''iamcredentials.googleapis.com'']"
    if "arg_channel a \<noteq> None \<or> \<not> truthy_str (arg_api_mtls_endpoint a)"
  proof (cases "arg_channel a")
    case None
    with that assms show ?thesis
      by (simp add: init_plain finish_init_added base_args_def)
  next
    case (Some ch)
    with assms show ?thesis
      by (simp add: init_channel finish_init_added base_args_def)
  qed
  have 3: "set (hosts_used (added w (snd (init lib a w))))
              \<subseteq> {mtls_host (the (arg_api_mtls_endpoint a))}"
    if mtls: "arg_channel a = None \<and> truthy_str (arg_api_mtls_endpoint a)"
  proof -
    obtain ep where ep: "arg_api_mtls_endpoint a = Some ep" "ep \<noteq> []"
      using mtls by (cases "arg_api_mtls_endpoint a") auto
    from mtls have ch: "arg_channel a = None" by simp
    show ?thesis
      using ch ep
    proof (cases rule: init_mtls_added [where lib = lib and w = w])
      case (ssl_fails ev e)
      then show ?thesis by simp
    next
      case (channel_fails ev s call e)
      then show ?thesis using ep by simp
    next
      case (created ev s call w2)
      then show ?thesis using ep by (simp add: base_args_def)
    qed
  qed
  show ?thesis using 1 2 3 by blast
qed

text \<open>
  Claim C4 as stated fails: constructed without a host but with the endpoint
  \<^verbatim>\<open>mtls.example.com\<close>, the transport hands \<^verbatim>\<open>mtls.example.com:443\<close> to the channel factory and to
  the base constructor, and the default host is used nowhere.
\<close>

theorem default_host_counterexample:
  "arg_host mtls_args = None
   \<and> hosts_used (added initial_world (snd (init example_library mtls_args initial_world)))
       = [''mtls.example.com:443'', ''mtls.example.com:443'']
   \<and> ''mtls.example.com:443'' \<noteq> ''iamcredentials.googleapis.com''"
  by (simp add: mtls_args_hosts) (simp add: mtls_args_def no_args_def)

theorem default_host_witness:
  "arg_host no_args = None \<and> arg_channel no_args = None
   \<and> \<not> truthy_str (arg_api_mtls_endpoint no_args)
   \<and> hosts_used (added initial_world
        (snd (create_channel example_library None NoCredentials None None None [] initial_world)))
       = [''iamcredentials.googleapis.com'']
   \<and> hosts_used (added initial_world (snd (init example_library no_args initial_world)))
       = [''iamcredentials.googleapis.com'']
   \<and> arg_host mtls_args = None \<and> arg_channel mtls_args = None
   \<and> truthy_str (arg_api_mtls_endpoint mtls_args)
   \<and> set (hosts_used (added initial_world (snd (init example_library mtls_args initial_world))))
       \<subseteq> {''mtls.example.com:443''}"
proof -
  have g: "arg_host no_args = None" "arg_channel no_args = None"
     "\<not> truthy_str (arg_api_mtls_endpoint no_args)"
    by (simp_all add: no_args_def)
  have h: "arg_host mtls_args = None" "arg_channel mtls_args = None"
     "truthy_str (arg_api_mtls_endpoint mtls_args)"
     "mtls_host (the (arg_api_mtls_endpoint mtls_args)) = ''mtls.example.com:443''"
    by (simp_all add: mtls_args_def no_args_def mtls_host_def)
  show ?thesis
    using g h
      default_host [OF g(1), where lib = example_library and w = initial_world
        and c = NoCredentials and f = None and s = None and q = None and k = "[]"]
      default_host [OF h(1), where lib = example_library and w = initial_world
        and c = NoCredentials and f = None and s = None and q = None and k = "[]"]
    by simp
qed

subsection \<open>A credentials object together with a credentials file\<close>





subsection \<open>One read of a property\<close>

lemma channels_created_simps [simp]:
  "channels_created [] = 0"
  "channels_created (xs @ ys) = channels_created xs + channels_created ys"
  "channels_created [CreateChannelCalled call (Inr c)] = 1"
  "channels_created [CreateChannelCalled call (Inl e)] = 0"
  "channels_created [UnaryUnaryCalled m] = 0"
  "channels_created [BaseInitCalled bcall out] = 0"
  by (simp_all add: channels_created_def)

lemma channels_created_ssl [simp]:
  "is_ssl_event ev \<Longrightarrow> channels_created (ev # es) = channels_created es"
  by (cases ev) (simp_all add: channels_created_def)

lemma stubs_created_simps [simp]:
  "stubs_created rt [] = 0"
  "stubs_created rt (xs @ ys) = stubs_created rt xs + stubs_created rt ys"
  "stubs_created rt [CreateChannelCalled call out] = 0"
  "stubs_created rt [UnaryUnaryCalled m] = (if mc_route m = rt then 1 else 0)"
  by (simp_all add: stubs_created_def)

lemma grpc_channel_cached:
  "t_grpc_channel self = Some c \<Longrightarrow> grpc_channel lib self w = (Inr c, self, w)"
  by (simp add: grpc_channel_def)

lemma grpc_channel_step:
  assumes "grpc_channel lib self w = (r, self', w')"
  shows "t_stubs self' = t_stubs self"
    and "dicts w' = dicts w"
    and "fresh w \<le> fresh w'"
    and "\<exists>es. trace w' = trace w @ es \<and> (\<forall>rt. stubs_created rt es = 0)
           \<and> channels_created es =
               (if t_grpc_channel self = None \<and> t_grpc_channel self' \<noteq> None then 1 else 0)"
    and "t_grpc_channel self = Some c \<Longrightarrow> t_grpc_channel self' = Some c"
    and "r = Inr c \<Longrightarrow> t_grpc_channel self' = Some c"
  using assms
  by (auto simp: grpc_channel_def create_channel_def grpc_helpers_async_create_channel_def
      split: option.splits sum.splits prod.splits)


lemma stub_property_cached:
  "dicts w (t_stubs self) name = Some m \<Longrightarrow>
     stub_property name rt req resp lib self w = (Inr m, self, w)"
  by (simp add: stub_property_def)

lemma stub_property_uncached:
  assumes "dicts w (t_stubs self) name = None"
  shows "stub_property name rt req resp lib self w =
     (case grpc_channel lib self w of
        (Inl e, self1, w1) \<Rightarrow> (Inl e, self1, w1)
      | (Inr c, self1, w1) \<Rightarrow>
          (Inr \<lparr>mc_id = fresh w1, mc_channel = c, mc_route = rt,
                 mc_request_serializer = req, mc_response_deserializer = resp\<rparr>,
           self1,
           w1\<lparr>fresh := Suc (fresh w1),
               trace := trace w1 @ [UnaryUnaryCalled
                 \<lparr>mc_id = fresh w1, mc_channel = c, mc_route = rt,
                  mc_request_serializer = req, mc_response_deserializer = resp\<rparr>],
               dicts := (dicts w1)(t_stubs self1 := (dicts w1 (t_stubs self1))(name \<mapsto>
                 \<lparr>mc_id = fresh w1, mc_channel = c, mc_route = rt,
                  mc_request_serializer = req, mc_response_deserializer = resp\<rparr>))\<rparr>))"
  using assms
  by (simp add: stub_property_def unary_unary_def Let_def record_event_def
      split: sum.splits prod.splits)

lemma stub_property_step:
  assumes "stub_property name rt req resp lib self w = (r, self', w')"
  shows "t_stubs self' = t_stubs self"
    and "fresh w \<le> fresh w'"
    and "t_grpc_channel self = Some c \<Longrightarrow> t_grpc_channel self' = Some c"
    and "a \<noteq> t_stubs self \<Longrightarrow> dicts w' a = dicts w a"
    and "n \<noteq> name \<Longrightarrow> dicts w' (t_stubs self) n = dicts w (t_stubs self) n"
    and "dicts w (t_stubs self) name = Some m \<Longrightarrow> dicts w' (t_stubs self) name = Some m"
    and "r = Inr m \<Longrightarrow> dicts w' (t_stubs self) name = Some m"
    and "\<exists>es. trace w' = trace w @ es
           \<and> channels_created es =
               (if t_grpc_channel self = None \<and> t_grpc_channel self' \<noteq> None then 1 else 0)
           \<and> (\<forall>rt'. stubs_created rt' es =
               (if rt' = rt \<and> dicts w (t_stubs self) name = None
                   \<and> dicts w' (t_stubs self) name \<noteq> None then 1 else 0))"
    and "dicts w (t_stubs self) name = None \<Longrightarrow> dicts w' (t_stubs self) name = Some m \<Longrightarrow>
           mc_route m = rt \<and> mc_request_serializer m = req \<and> mc_response_deserializer m = resp
         \<and> fresh w \<le> mc_id m \<and> mc_id m < fresh w'
         \<and> t_grpc_channel self' = Some (mc_channel m)
         \<and> UnaryUnaryCalled m \<in> set (trace w') \<and> r = Inr m"
proof -
  show "t_stubs self' = t_stubs self"
  proof (cases "dicts w (t_stubs self) name")
    case None
    obtain r1 self1 w1 where g: "grpc_channel lib self w = (r1, self1, w1)"
      by (cases "grpc_channel lib self w") auto
    from grpc_channel_step(1)[OF g] assms None g show ?thesis
      by (auto simp: stub_property_uncached split: sum.splits)
  next
    case (Some m0)
    with assms show ?thesis by (simp add: stub_property_cached)
  qed
next
  show "fresh w \<le> fresh w'"
  proof (cases "dicts w (t_stubs self) name")
    case None
    obtain r1 self1 w1 where g: "grpc_channel lib self w = (r1, self1, w1)"
      by (cases "grpc_channel lib self w") auto
    from grpc_channel_step(3)[OF g] assms None g show ?thesis
      by (auto simp: stub_property_uncached split: sum.splits)
  next
    case (Some m0)
    with assms show ?thesis by (simp add: stub_property_cached)
  qed
next
  assume c: "t_grpc_channel self = Some c"
  show "t_grpc_channel self' = Some c"
  proof (cases "dicts w (t_stubs self) name")
    case None
    with assms c show ?thesis
      by (auto simp: stub_property_uncached grpc_channel_cached)
  next
    case (Some m0)
    with assms c show ?thesis by (simp add: stub_property_cached)
  qed
next
  assume a: "a \<noteq> t_stubs self"
  show "dicts w' a = dicts w a"
  proof (cases "dicts w (t_stubs self) name")
    case None
    obtain r1 self1 w1 where g: "grpc_channel lib self w = (r1, self1, w1)"
      by (cases "grpc_channel lib self w") auto
    from grpc_channel_step(1,2)[OF g] assms None g a show ?thesis
      by (auto simp: stub_property_uncached split: sum.splits)
  next
    case (Some m0)
    with assms show ?thesis by (simp add: stub_property_cached)
  qed
next
  assume n: "n \<noteq> name"
  show "dicts w' (t_stubs self) n = dicts w (t_stubs self) n"
  proof (cases "dicts w (t_stubs self) name")
    case None
    obtain r1 self1 w1 where g: "grpc_channel lib self w = (r1, self1, w1)"
      by (cases "grpc_channel lib self w") auto
    from grpc_channel_step(1,2)[OF g] assms None g n show ?thesis
      by (auto simp: stub_property_uncached split: sum.splits)
  next
    case (Some m0)
    with assms show ?thesis by (simp add: stub_property_cached)
  qed
next
  assume "dicts w (t_stubs self) name = Some m"
  with assms show "dicts w' (t_stubs self) name = Some m"
    by (simp add: stub_property_cached)
next
  assume r: "r = Inr m"
  show "dicts w' (t_stubs self) name = Some m"
  proof (cases "dicts w (t_stubs self) name")
    case None
    obtain r1 self1 w1 where g: "grpc_channel lib self w = (r1, self1, w1)"
      by (cases "grpc_channel lib self w") auto
    from grpc_channel_step(1,2)[OF g] assms None g r show ?thesis
      by (auto simp: stub_property_uncached split: sum.splits)
  next
    case (Some m0)
    with assms r show ?thesis by (simp add: stub_property_cached)
  qed
next
  show "\<exists>es. trace w' = trace w @ es
           \<and> channels_created es =
               (if t_grpc_channel self = None \<and> t_grpc_channel self' \<noteq> None then 1 else 0)
           \<and> (\<forall>rt'. stubs_created rt' es =
               (if rt' = rt \<and> dicts w (t_stubs self) name = None
                   \<and> dicts w' (t_stubs self) name \<noteq> None then 1 else 0))"
  proof (cases "dicts w (t_stubs self) name")
    case None
    obtain r1 self1 w1 where g: "grpc_channel lib self w = (r1, self1, w1)"
      by (cases "grpc_channel lib self w") auto
    from grpc_channel_step(4)[OF g] obtain es where es: "trace w1 = trace w @ es"
       "\<forall>rt. stubs_created rt es = 0"
       "channels_created es =
               (if t_grpc_channel self = None \<and> t_grpc_channel self1 \<noteq> None then 1 else 0)"
      by blast
    show ?thesis
    proof (cases r1)
      case (Inl e)
      with assms None g have "self' = self1" "w' = w1" by (simp_all add: stub_property_uncached)
      with es grpc_channel_step(1,2)[OF g] None show ?thesis by auto
    next
      case (Inr c)
      let ?m = "\<lparr>mc_id = fresh w1, mc_channel = c, mc_route = rt,
                 mc_request_serializer = req, mc_response_deserializer = resp\<rparr>"
      from assms None g Inr have s: "self' = self1"
        and t: "trace w' = trace w1 @ [UnaryUnaryCalled ?m]"
        and d: "dicts w' (t_stubs self1) name = Some ?m"
        by (auto simp: stub_property_uncached)
      have "trace w' = trace w @ (es @ [UnaryUnaryCalled ?m])" using t es(1) by simp
      moreover have "channels_created (es @ [UnaryUnaryCalled ?m]) =
               (if t_grpc_channel self = None \<and> t_grpc_channel self' \<noteq> None then 1 else 0)"
        using es(3) s by simp
      moreover have "\<forall>rt'. stubs_created rt' (es @ [UnaryUnaryCalled ?m]) =
               (if rt' = rt \<and> dicts w (t_stubs self) name = None
                   \<and> dicts w' (t_stubs self) name \<noteq> None then 1 else 0)"
        using es(2) d None grpc_channel_step(1)[OF g] by auto
      ultimately show ?thesis by blast
    qed
  next
    case (Some m0)
    with assms have "self' = self" "w' = w" by (simp_all add: stub_property_cached)
    with Some show ?thesis by auto
  qed
next
  assume none: "dicts w (t_stubs self) name = None"
     and some: "dicts w' (t_stubs self) name = Some m"
  obtain r1 self1 w1 where g: "grpc_channel lib self w = (r1, self1, w1)"
    by (cases "grpc_channel lib self w") auto
  show "mc_route m = rt \<and> mc_request_serializer m = req \<and> mc_response_deserializer m = resp
         \<and> fresh w \<le> mc_id m \<and> mc_id m < fresh w'
         \<and> t_grpc_channel self' = Some (mc_channel m)
         \<and> UnaryUnaryCalled m \<in> set (trace w') \<and> r = Inr m"
  proof (cases r1)
    case (Inl e)
    with assms none g have "w' = w1" by (simp add: stub_property_uncached)
    with grpc_channel_step(2)[OF g] none some show ?thesis by simp
  next
    case (Inr c)
    from grpc_channel_step(1,3,6)[OF g] Inr assms none g some show ?thesis
      by (auto simp: stub_property_uncached)
  qed
qed

subsection \<open>Any number of reads\<close>

lemma route_inj [simp]: "route r = route r' \<longleftrightarrow> r = r'"
  by (cases r; cases r'; simp)

lemma stub_name_inj [simp]: "stub_name r = stub_name r' \<longleftrightarrow> r = r'"
  by (cases r; cases r'; simp)

lemma stub_of_eq:
  "\<exists>req resp. stub_of r = stub_property (stub_name r) (route r) req resp"
  by (cases r)
     (auto simp: generate_access_token_def generate_id_token_def sign_blob_def sign_jwt_def)

lemma evolves_refl: "evolves self w self w"
  by (auto simp: evolves_def)

lemma evolves_grpc_channel:
  assumes "grpc_channel lib self w = (r, self', w')"
  shows "evolves self w self' w'"
proof -
  note s = grpc_channel_step [OF assms]
  from s(4) obtain es where es: "trace w' = trace w @ es" "\<forall>rt. stubs_created rt es = 0"
     "channels_created es =
        (if t_grpc_channel self = None \<and> t_grpc_channel self' \<noteq> None then 1 else 0)"
    by blast
  show ?thesis
    unfolding evolves_def
    using s(1,2,3,5) es by auto
qed

lemma evolves_stub_of:
  assumes "stub_of r0 lib self w = (r, self', w')"
  shows "evolves self w self' w'"
proof -
  obtain req resp where eq: "stub_of r0 = stub_property (stub_name r0) (route r0) req resp"
    using stub_of_eq by blast
  have sp: "stub_property (stub_name r0) (route r0) req resp lib self w = (r, self', w')"
    using assms eq by simp
  note s = stub_property_step [OF sp]
  from s(8) obtain es where es: "trace w' = trace w @ es"
     "channels_created es =
        (if t_grpc_channel self = None \<and> t_grpc_channel self' \<noteq> None then 1 else 0)"
     "\<forall>rt'. stubs_created rt' es =
               (if rt' = route r0 \<and> dicts w (t_stubs self) (stub_name r0) = None
                   \<and> dicts w' (t_stubs self) (stub_name r0) \<noteq> None then 1 else 0)"
    by blast
  have keep: "dicts w' (t_stubs self) n = Some m" if "dicts w (t_stubs self) n = Some m" for n m
    using that s(5)[of n] s(6)[of m] by (cases "n = stub_name r0") auto
  have count: "stubs_created (route r1) es =
              (if dicts w (t_stubs self) (stub_name r1) = None
                  \<and> dicts w' (t_stubs self) (stub_name r1) \<noteq> None then 1 else 0)" for r1
  proof (cases "r1 = r0")
    case True
    then show ?thesis using es(3) by simp
  next
    case False
    then have "dicts w' (t_stubs self) (stub_name r1) = dicts w (t_stubs self) (stub_name r1)"
      using s(5)[of "stub_name r1"] by simp
    with False es(3) show ?thesis by auto
  qed
  have new: "\<exists>r1. n = stub_name r1 \<and> mc_route m = route r1 \<and> fresh w \<le> mc_id m
             \<and> mc_id m < fresh w' \<and> t_grpc_channel self' = Some (mc_channel m)
             \<and> UnaryUnaryCalled m \<in> set (trace w')"
    if n: "dicts w (t_stubs self) n = None" "dicts w' (t_stubs self) n = Some m" for n m
  proof (cases "n = stub_name r0")
    case True
    have "mc_route m = route r0 \<and> fresh w \<le> mc_id m \<and> mc_id m < fresh w'
         \<and> t_grpc_channel self' = Some (mc_channel m)
         \<and> UnaryUnaryCalled m \<in> set (trace w')"
      using s(9)[of m] n True by simp
    with True show ?thesis by (intro exI[of _ r0]) simp
  next
    case False
    with s(5)[of n] n show ?thesis by simp
  qed
  show ?thesis
    unfolding evolves_def
    using s(1,2,3,4) keep es(1,2) count new by blast
qed

lemma evolves_read_property:
  assumes "read_property lib x self w = (self', w')"
  shows "evolves self w self' w'"
proof (cases x)
  case ReadGrpcChannel
  obtain r where "grpc_channel lib self w = (r, self', w')"
    using assms ReadGrpcChannel by (cases "grpc_channel lib self w") auto
  then show ?thesis by (rule evolves_grpc_channel)
next
  case (ReadStub r0)
  obtain r where "stub_of r0 lib self w = (r, self', w')"
    using assms ReadStub by (cases "stub_of r0 lib self w") auto
  then show ?thesis by (rule evolves_stub_of)
qed


lemma evolves_trans:
  assumes a: "evolves self w self1 w1" and b: "evolves self1 w1 self2 w2"
  shows "evolves self w self2 w2"
proof -
  from a have a1: "t_stubs self1 = t_stubs self" and a2: "fresh w \<le> fresh w1"
    and a3: "\<And>c. t_grpc_channel self = Some c \<Longrightarrow> t_grpc_channel self1 = Some c"
    and a4: "\<And>x. x \<noteq> t_stubs self \<Longrightarrow> dicts w1 x = dicts w x"
    and a5: "\<And>n m. dicts w (t_stubs self) n = Some m \<Longrightarrow> dicts w1 (t_stubs self) n = Some m"
    and a7: "\<And>n m. dicts w (t_stubs self) n = None \<Longrightarrow> dicts w1 (t_stubs self) n = Some m \<Longrightarrow>
          (\<exists>r. n = stub_name r \<and> mc_route m = route r \<and> fresh w \<le> mc_id m
             \<and> mc_id m < fresh w1 \<and> t_grpc_channel self1 = Some (mc_channel m)
             \<and> UnaryUnaryCalled m \<in> set (trace w1))"
    unfolding evolves_def by blast+
  from a obtain es1 where e1: "trace w1 = trace w @ es1"
      "channels_created es1 =
         (if t_grpc_channel self = None \<and> t_grpc_channel self1 \<noteq> None then 1 else 0)"
      "\<And>r. stubs_created (route r) es1 =
              (if dicts w (t_stubs self) (stub_name r) = None
                  \<and> dicts w1 (t_stubs self) (stub_name r) \<noteq> None then 1 else 0)"
    unfolding evolves_def by blast
  from b have b1: "t_stubs self2 = t_stubs self1" and b2: "fresh w1 \<le> fresh w2"
    and b3: "\<And>c. t_grpc_channel self1 = Some c \<Longrightarrow> t_grpc_channel self2 = Some c"
    and b4: "\<And>x. x \<noteq> t_stubs self1 \<Longrightarrow> dicts w2 x = dicts w1 x"
    and b5: "\<And>n m. dicts w1 (t_stubs self1) n = Some m \<Longrightarrow> dicts w2 (t_stubs self1) n = Some m"
    and b7: "\<And>n m. dicts w1 (t_stubs self1) n = None \<Longrightarrow> dicts w2 (t_stubs self1) n = Some m \<Longrightarrow>
          (\<exists>r. n = stub_name r \<and> mc_route m = route r \<and> fresh w1 \<le> mc_id m
             \<and> mc_id m < fresh w2 \<and> t_grpc_channel self2 = Some (mc_channel m)
             \<and> UnaryUnaryCalled m \<in> set (trace w2))"
    unfolding evolves_def by blast+
  from b obtain es2 where e2: "trace w2 = trace w1 @ es2"
      "channels_created es2 =
         (if t_grpc_channel self1 = None \<and> t_grpc_channel self2 \<noteq> None then 1 else 0)"
      "\<And>r. stubs_created (route r) es2 =
              (if dicts w1 (t_stubs self1) (stub_name r) = None
                  \<and> dicts w2 (t_stubs self1) (stub_name r) \<noteq> None then 1 else 0)"
    unfolding evolves_def by blast
  have c1: "t_stubs self2 = t_stubs self" using a1 b1 by simp
  have c2: "fresh w \<le> fresh w2" using a2 b2 by simp
  have c3: "t_grpc_channel self2 = Some c" if "t_grpc_channel self = Some c" for c
    using that a3 b3 by blast
  have c4: "dicts w2 x = dicts w x" if "x \<noteq> t_stubs self" for x
    using that a4 b4 a1 by simp
  have c5: "dicts w2 (t_stubs self) n = Some m" if "dicts w (t_stubs self) n = Some m" for n m
    using that a5 b5 a1 by simp
  have t: "trace w2 = trace w @ (es1 @ es2)" using e1(1) e2(1) by simp
  have c6a: "channels_created (es1 @ es2) =
         (if t_grpc_channel self = None \<and> t_grpc_channel self2 \<noteq> None then 1 else 0)"
  proof (cases "t_grpc_channel self")
    case None
    show ?thesis
    proof (cases "t_grpc_channel self1")
      case n1: None
      with None e1(2) e2(2) show ?thesis by simp
    next
      case (Some c)
      with None e1(2) e2(2) b3[OF Some] show ?thesis by simp
    qed
  next
    case (Some c)
    with a3[OF Some] c3[OF Some] e1(2) e2(2) show ?thesis by simp
  qed
  have c6b: "stubs_created (route r) (es1 @ es2) =
              (if dicts w (t_stubs self) (stub_name r) = None
                  \<and> dicts w2 (t_stubs self) (stub_name r) \<noteq> None then 1 else 0)" for r
  proof (cases "dicts w (t_stubs self) (stub_name r)")
    case None
    show ?thesis
    proof (cases "dicts w1 (t_stubs self) (stub_name r)")
      case n1: None
      with None e1(3)[of r] e2(3)[of r] a1 show ?thesis by simp
    next
      case (Some m)
      then have "dicts w2 (t_stubs self) (stub_name r) = Some m" using b5 a1 by simp
      with None Some e1(3)[of r] e2(3)[of r] a1 show ?thesis by simp
    qed
  next
    case (Some m)
    with a5[OF Some] c5[OF Some] e1(3)[of r] e2(3)[of r] a1 show ?thesis by simp
  qed
  have c7: "\<exists>r. n = stub_name r \<and> mc_route m = route r \<and> fresh w \<le> mc_id m
             \<and> mc_id m < fresh w2 \<and> t_grpc_channel self2 = Some (mc_channel m)
             \<and> UnaryUnaryCalled m \<in> set (trace w2)"
    if n: "dicts w (t_stubs self) n = None" "dicts w2 (t_stubs self) n = Some m" for n m
  proof (cases "dicts w1 (t_stubs self) n")
    case None
    then obtain r where "n = stub_name r \<and> mc_route m = route r \<and> fresh w1 \<le> mc_id m
             \<and> mc_id m < fresh w2 \<and> t_grpc_channel self2 = Some (mc_channel m)
             \<and> UnaryUnaryCalled m \<in> set (trace w2)"
      using b7[of n m] n(2) a1 by auto
    with a2 show ?thesis by (intro exI[of _ r]) simp
  next
    case (Some m1)
    then have "dicts w2 (t_stubs self) n = Some m1" using b5 a1 by simp
    with n(2) have m: "m1 = m" by simp
    obtain r where r: "n = stub_name r" "mc_route m = route r" "fresh w \<le> mc_id m"
       "mc_id m < fresh w1" "t_grpc_channel self1 = Some (mc_channel m)"
       "UnaryUnaryCalled m \<in> set (trace w1)"
      using a7[of n m] n(1) Some m by auto
    have "mc_id m < fresh w2" using r(4) b2 by simp
    moreover have "t_grpc_channel self2 = Some (mc_channel m)" using b3 r(5) by simp
    moreover have "UnaryUnaryCalled m \<in> set (trace w2)" using r(6) e2(1) by simp
    ultimately show ?thesis using r(1,2,3) by (intro exI[of _ r]) simp
  qed
  show ?thesis
    unfolding evolves_def
    using c1 c2 c3 c4 c5 t c6a c6b c7 by blast
qed

lemma evolves_reads:
  "reads lib xs self w = (self', w') \<Longrightarrow> evolves self w self' w'"
proof (induction xs arbitrary: self w)
  case Nil
  then show ?case by (simp add: evolves_refl)
next
  case (Cons x xs)
  obtain self1 w1 where s: "read_property lib x self w = (self1, w1)"
    by (cases "read_property lib x self w") auto
  with Cons.prems have "reads lib xs self1 w1 = (self', w')" by simp
  then have "evolves self1 w1 self' w'" by (rule Cons.IH)
  with evolves_read_property [OF s] show ?case by (rule evolves_trans)
qed

subsection \<open>Construction followed by reads\<close>

lemma finish_init_success:
  assumes "finish_init lib a host c g w = (Inr t, w1)"
  shows "t_grpc_channel t = g" and "t_stubs t = fresh w" and "fresh w1 = Suc (fresh w)"
    and "dicts w1 = (dicts w)(fresh w := Map.empty)"
    and "\<exists>bout. trace w1 = trace w @ [BaseInitCalled (base_args lib a host c) bout]"
  using assms
  by (auto simp: finish_init_def base_init_def Let_def split: sum.splits prod.splits if_splits)

lemma init_success:
  assumes "init lib a w0 = (Inr self0, w1)"
  shows "fresh w0 \<le> t_stubs self0" and "t_stubs self0 < fresh w1"
    and "dicts w1 (t_stubs self0) = Map.empty"
    and "\<And>x. x \<noteq> t_stubs self0 \<Longrightarrow> dicts w1 x = dicts w0 x"
    and "\<exists>es. trace w1 = trace w0 @ es \<and> (\<forall>rt. stubs_created rt es = 0)
           \<and> channels_created es =
               (if arg_channel a = None \<and> truthy_str (arg_api_mtls_endpoint a) then 1 else 0)"
    and "t_grpc_channel self0 =
           (case arg_channel a of
              Some ch \<Rightarrow> Some ch
            | None \<Rightarrow> if truthy_str (arg_api_mtls_endpoint a) then Some (Channel (fresh w0))
                       else None)"
proof -
  have all: "fresh w0 \<le> t_stubs self0 \<and> t_stubs self0 < fresh w1
    \<and> dicts w1 (t_stubs self0) = Map.empty
    \<and> (\<forall>x. x \<noteq> t_stubs self0 \<longrightarrow> dicts w1 x = dicts w0 x)
    \<and> (\<exists>es. trace w1 = trace w0 @ es \<and> (\<forall>rt. stubs_created rt es = 0)
           \<and> channels_created es =
               (if arg_channel a = None \<and> truthy_str (arg_api_mtls_endpoint a) then 1 else 0))
    \<and> t_grpc_channel self0 =
           (case arg_channel a of
              Some ch \<Rightarrow> Some ch
            | None \<Rightarrow> if truthy_str (arg_api_mtls_endpoint a) then Some (Channel (fresh w0))
                       else None)"
  proof (cases "arg_channel a")
    case (Some ch)
    have f: "finish_init lib a (host_or_default (arg_host a)) FalseValue (Some ch) w0
               = (Inr self0, w1)"
      using assms Some by (simp add: init_channel)
    note s = finish_init_success [OF f]
    from s(5) obtain bout where t: "trace w1 = trace w0 @
        [BaseInitCalled (base_args lib a (host_or_default (arg_host a)) FalseValue) bout]"
      by blast
    have "\<forall>rt. stubs_created rt
        [BaseInitCalled (base_args lib a (host_or_default (arg_host a)) FalseValue) bout] = 0"
      by (simp add: stubs_created_def)
    with s(1-4) t Some show ?thesis by auto
  next
    case None
    show ?thesis
    proof (cases "truthy_str (arg_api_mtls_endpoint a)")
      case False
      have f: "finish_init lib a (host_or_default (arg_host a)) (arg_credentials a) None w0
                 = (Inr self0, w1)"
        using assms None False by (simp add: init_plain)
      note s = finish_init_success [OF f]
      from s(5) obtain bout where t: "trace w1 = trace w0 @
          [BaseInitCalled (base_args lib a (host_or_default (arg_host a)) (arg_credentials a)) bout]"
        by blast
      have "\<forall>rt. stubs_created rt
          [BaseInitCalled (base_args lib a (host_or_default (arg_host a)) (arg_credentials a)) bout] = 0"
        by (simp add: stubs_created_def)
      with s(1-4) t None False show ?thesis by auto
    next
      case True
      then obtain ep where ep: "arg_api_mtls_endpoint a = Some ep" "ep \<noteq> []"
        by (cases "arg_api_mtls_endpoint a") auto
      show ?thesis
        using None ep
      proof (cases rule: init_mtls_cases [where lib = lib and w = w0])
        case (ssl_fails ev e w1')
        with assms show ?thesis by simp
      next
        case (channel_fails ev s w1' call e w2)
        with assms show ?thesis by simp
      next
        case (created ev s w1' call c w2)
        have f: "finish_init lib a (mtls_host ep) (arg_credentials a) (Some c) w2 = (Inr self0, w1)"
          using assms created(2) by simp
        note s = finish_init_success [OF f]
        from s(5) obtain bout where t: "trace w1 = trace w2 @
            [BaseInitCalled (base_args lib a (mtls_host ep) (arg_credentials a)) bout]"
          by blast
        have t': "trace w1 = trace w0 @ ([ev] @ [CreateChannelCalled call (Inr c)] @
            [BaseInitCalled (base_args lib a (mtls_host ep) (arg_credentials a)) bout])"
          using t created(3) by simp
        have n: "\<forall>rt. stubs_created rt ([ev] @ [CreateChannelCalled call (Inr c)] @
            [BaseInitCalled (base_args lib a (mtls_host ep) (arg_credentials a)) bout]) = 0"
          using created(4) by (cases ev) (simp_all add: stubs_created_def)
        have k: "channels_created ([ev] @ [CreateChannelCalled call (Inr c)] @
            [BaseInitCalled (base_args lib a (mtls_host ep) (arg_credentials a)) bout]) = 1"
          using created(4) by (cases ev) (simp_all add: channels_created_def)
        have "\<exists>es. trace w1 = trace w0 @ es \<and> (\<forall>rt. stubs_created rt es = 0)
           \<and> channels_created es = 1"
          using t' n k by blast
        with s(1-4) created(9,10,11) None True show ?thesis by auto
      qed
    qed
  qed
  show "fresh w0 \<le> t_stubs self0" using all by blast
  show "t_stubs self0 < fresh w1" using all by blast
  show "dicts w1 (t_stubs self0) = Map.empty" using all by blast
  show "\<And>x. x \<noteq> t_stubs self0 \<Longrightarrow> dicts w1 x = dicts w0 x" using all by blast
  show "\<exists>es. trace w1 = trace w0 @ es \<and> (\<forall>rt. stubs_created rt es = 0)
           \<and> channels_created es =
               (if arg_channel a = None \<and> truthy_str (arg_api_mtls_endpoint a) then 1 else 0)"
    using all by blast
  show "t_grpc_channel self0 =
           (case arg_channel a of
              Some ch \<Rightarrow> Some ch
            | None \<Rightarrow> if truthy_str (arg_api_mtls_endpoint a) then Some (Channel (fresh w0))
                       else None)"
    using all by blast
qed


lemma evolves_channels:
  assumes "evolves self w self1 w1"
  shows "channels_created (added w w1) =
           (if t_grpc_channel self = None \<and> t_grpc_channel self1 \<noteq> None then 1 else 0)"
proof -
  from assms obtain es where "trace w1 = trace w @ es"
     "channels_created es =
        (if t_grpc_channel self = None \<and> t_grpc_channel self1 \<noteq> None then 1 else 0)"
    unfolding evolves_def by blast
  then show ?thesis by simp
qed

lemma evolves_channel_kept:
  "evolves self w self1 w1 \<Longrightarrow> t_grpc_channel self = Some c \<Longrightarrow> t_grpc_channel self1 = Some c"
  unfolding evolves_def by blast

subsection \<open>The concrete runs\<close>

lemmas read_defs = grpc_channel_def stub_property_def unary_unary_def
  generate_access_token_def generate_id_token_def sign_blob_def sign_jwt_def
  channels_created_def stubs_created_def

lemmas example_defs = plain_instance_def plain_world_def used_instance_def used_world_def
  jwt_world_def second_instance_def second_world_def shared_reads_def shared_world_def
  example_stub_def

lemma plain_run:
  "init example_library no_args initial_world = (Inr plain_instance, plain_world)"
  by (simp add: prod_eq_iff plain_world_def) (simp add: run_defs plain_instance_def)

lemma used_run:
  "reads example_library [ReadStub SignBlob, ReadGrpcChannel] plain_instance plain_world
     = (used_instance, used_world)"
  by (simp add: prod_eq_iff used_world_def) (simp add: run_defs read_defs example_defs)

lemma used_world_value:
  "used_world =
     \<lparr>trace = [BaseInitCalled
         \<lparr>bc_host = ''iamcredentials.googleapis.com'',
          bc_credentials = NoCredentials, bc_credentials_file = None,
          bc_scopes = [''https://www.googleapis.com/auth/cloud-platform''],
          bc_quota_project_id = None\<rparr>
         (Inr (''iamcredentials.googleapis.com'', NoCredentials)),
        CreateChannelCalled
         \<lparr>cc_host = ''iamcredentials.googleapis.com'',
          cc_credentials = NoCredentials, cc_credentials_file = None,
          cc_scopes = [''https://www.googleapis.com/auth/cloud-platform''],
          cc_quota_project_id = None, cc_kwargs = []\<rparr>
         (Inr (Channel 2)),
        UnaryUnaryCalled (example_stub 3 (Channel 2) ''SignBlob'')],
      fresh = 4,
      dicts = ((\<lambda>_. Map.empty)(1 := Map.empty))
                (1 := [''sign_blob'' \<mapsto> example_stub 3 (Channel 2) ''SignBlob''])\<rparr>"
  by (simp add: run_defs read_defs example_defs eval_nat_numeral)

lemma used_stubs:
  "stub_of SignBlob example_library used_instance used_world
     = (Inr (example_stub 3 (Channel 2) ''SignBlob''), used_instance, used_world)"
  "stub_of SignJwt example_library used_instance used_world
     = (Inr (example_stub 4 (Channel 2) ''SignJwt''), used_instance, jwt_world)"
  "stub_of GenerateAccessToken example_library used_instance used_world
     = (Inr (example_stub 4 (Channel 2) ''GenerateAccessToken''), used_instance,
        snd (snd (stub_of GenerateAccessToken example_library used_instance used_world)))"
  "stub_of GenerateIdToken example_library used_instance used_world
     = (Inr (example_stub 4 (Channel 2) ''GenerateIdToken''), used_instance,
        snd (snd (stub_of GenerateIdToken example_library used_instance used_world)))"
  by (simp_all add: prod_eq_iff jwt_world_def)
     (simp_all add: used_world_value read_defs used_instance_def plain_instance_def
        example_stub_def record_event_def Let_def)


lemma second_run:
  "init example_library mtls_args used_world = (Inr second_instance, second_world)"
  by (simp add: prod_eq_iff second_world_def)
     (simp add: used_world_value run_defs second_instance_def)

lemma shared_run:
  "reads2 example_library shared_reads used_instance second_instance second_world
     = (used_instance, second_instance, shared_world)"
  "dicts shared_world (t_stubs used_instance) ''sign_blob''
     = Some (example_stub 3 (Channel 2) ''SignBlob'')"
  "dicts shared_world (t_stubs second_instance) ''sign_blob''
     = Some (example_stub 7 (Channel 4) ''SignBlob'')"
  by (simp_all add: prod_eq_iff shared_world_def)
     (simp_all add: second_world_def used_world_value run_defs read_defs shared_reads_def
        used_instance_def plain_instance_def second_instance_def example_stub_def)

lemma grpc_channel_returns:
  assumes "grpc_channel lib self w = (Inr c, self2, w2)"
  shows "t_grpc_channel self2 = Some c"
    and "channels_created (added w w2) = (if t_grpc_channel self = None then 1 else 0)"
proof -
  show c: "t_grpc_channel self2 = Some c" using grpc_channel_step(6) [OF assms] by simp
  from grpc_channel_step(4) [OF assms] obtain es where es: "trace w2 = trace w @ es"
     "channels_created es =
        (if t_grpc_channel self = None \<and> t_grpc_channel self2 \<noteq> None then 1 else 0)"
    by blast
  have "added w w2 = es" using es(1) by (rule added_append)
  with es(2) c show "channels_created (added w w2) = (if t_grpc_channel self = None then 1 else 0)"
    by simp
qed

lemma grpc_channel_raises:
  assumes "grpc_channel lib self w = (Inl e, self2, w2)"
  shows "t_grpc_channel self = None" and "self2 = self"
    and "channels_created (added w w2) = 0"
  using assms
  by (auto simp: grpc_channel_def create_channel_def grpc_helpers_async_create_channel_def
      added_def split: option.splits sum.splits prod.splits)

subsection \<open>The channel of an instance\<close>

text \<open>
  Claim C2. Over construction and any sequence of property reads, at most one channel is
  created. A supplied channel is the instance's channel and none is ever created; with an
  \<^verbatim>\<open>api_mtls_endpoint\<close> the channel is created during construction, and no read creates
  another; otherwise the constructed instance has no channel yet. Once the instance has
  a channel, every read of \<^verbatim>\<open>grpc_channel\<close>, now or after any further reads, returns that
  channel and changes nothing. A read of \<^verbatim>\<open>grpc_channel\<close> that returns a channel has stored
  it, and has created it exactly when the instance had none; a read that raises (the
  instance had no channel and the channel factory failed) creates and stores nothing.
\<close>

theorem channel_created_at_most_once:
  assumes "init lib a w0 = (Inr self0, w1)" and "reads lib xs self0 w1 = (self, w)"
  shows "channels_created (added w0 w) \<le> 1
       \<and> (\<forall>ch. arg_channel a = Some ch \<longrightarrow>
             t_grpc_channel self = Some ch \<and> channels_created (added w0 w) = 0)
       \<and> (arg_channel a = None \<and> truthy_str (arg_api_mtls_endpoint a) \<longrightarrow>
             t_grpc_channel self0 = Some (Channel (fresh w0))
           \<and> channels_created (added w0 w1) = 1 \<and> channels_created (added w1 w) = 0)
       \<and> (arg_channel a = None \<and> \<not> truthy_str (arg_api_mtls_endpoint a) \<longrightarrow>
             t_grpc_channel self0 = None \<and> channels_created (added w0 w1) = 0)
       \<and> (\<forall>c. t_grpc_channel self = Some c \<longrightarrow>
             grpc_channel lib self w = (Inr c, self, w)
           \<and> (\<forall>ys self2 w2. reads lib ys self w = (self2, w2) \<longrightarrow>
                 t_grpc_channel self2 = Some c \<and> channels_created (added w w2) = 0
               \<and> grpc_channel lib self2 w2 = (Inr c, self2, w2)))
       \<and> (\<forall>c self2 w2. grpc_channel lib self w = (Inr c, self2, w2) \<longrightarrow>
             t_grpc_channel self2 = Some c
           \<and> channels_created (added w w2) = (if t_grpc_channel self = None then 1 else 0))
       \<and> (\<forall>e self2 w2. grpc_channel lib self w = (Inl e, self2, w2) \<longrightarrow>
             t_grpc_channel self = None \<and> self2 = self \<and> channels_created (added w w2) = 0)"
proof -
  note i = init_success [OF assms(1)]
  from i(5) obtain es0 where es0: "trace w1 = trace w0 @ es0"
     "channels_created es0 =
        (if arg_channel a = None \<and> truthy_str (arg_api_mtls_endpoint a) then 1 else 0)"
    by blast
  have e: "evolves self0 w1 self w" using assms(2) by (rule evolves_reads)
  from e obtain es where es: "trace w = trace w1 @ es"
     "channels_created es =
        (if t_grpc_channel self0 = None \<and> t_grpc_channel self \<noteq> None then 1 else 0)"
    unfolding evolves_def by blast
  have tw: "trace w = trace w0 @ (es0 @ es)" using es0(1) es(1) by simp
  have a0: "added w0 w = es0 @ es" using tw by (rule added_append)
  have a1: "added w0 w1 = es0" using es0(1) by (rule added_append)
  have a2: "added w1 w = es" using es(1) by (rule added_append)
  have 1: "channels_created (added w0 w) \<le> 1"
    using a0 es0(2) es(2) i(6) by (auto split: option.splits)
  have 2: "t_grpc_channel self = Some ch \<and> channels_created (added w0 w) = 0"
    if "arg_channel a = Some ch" for ch
  proof -
    have "t_grpc_channel self0 = Some ch" using i(6) that by simp
    moreover from this have "t_grpc_channel self = Some ch"
      using e by (rule evolves_channel_kept [rotated])
    ultimately show ?thesis using a0 es0(2) es(2) that by simp
  qed
  have 3: "t_grpc_channel self0 = Some (Channel (fresh w0))
           \<and> channels_created (added w0 w1) = 1 \<and> channels_created (added w1 w) = 0"
    if "arg_channel a = None \<and> truthy_str (arg_api_mtls_endpoint a)"
    using that i(6) a1 a2 es0(2) es(2) by simp
  have 4: "t_grpc_channel self0 = None \<and> channels_created (added w0 w1) = 0"
    if "arg_channel a = None \<and> \<not> truthy_str (arg_api_mtls_endpoint a)"
    using that i(6) a1 es0(2) by simp
  have 5: "grpc_channel lib self w = (Inr c, self, w)
           \<and> (\<forall>ys self2 w2. reads lib ys self w = (self2, w2) \<longrightarrow>
                 t_grpc_channel self2 = Some c \<and> channels_created (added w w2) = 0
               \<and> grpc_channel lib self2 w2 = (Inr c, self2, w2))"
    if c: "t_grpc_channel self = Some c" for c
  proof -
    have "t_grpc_channel self2 = Some c \<and> channels_created (added w w2) = 0
               \<and> grpc_channel lib self2 w2 = (Inr c, self2, w2)"
      if r: "reads lib ys self w = (self2, w2)" for ys self2 w2
    proof -
      have e2: "evolves self w self2 w2" using r by (rule evolves_reads)
      have k: "t_grpc_channel self2 = Some c" using e2 c by (rule evolves_channel_kept)
      show ?thesis using k evolves_channels [OF e2] c by (simp add: grpc_channel_cached)
    qed
    then show ?thesis using c by (simp add: grpc_channel_cached)
  qed
  have 6: "t_grpc_channel self2 = Some c
           \<and> channels_created (added w w2) = (if t_grpc_channel self = None then 1 else 0)"
    if "grpc_channel lib self w = (Inr c, self2, w2)" for c self2 w2
    using grpc_channel_returns [OF that] by simp
  have 7: "t_grpc_channel self = None \<and> self2 = self \<and> channels_created (added w w2) = 0"
    if "grpc_channel lib self w = (Inl e, self2, w2)" for e self2 w2
    using grpc_channel_raises [OF that] by simp
  show ?thesis using 1 2 3 4 5 6 7 by blast
qed

theorem channel_created_at_most_once_witness:
  "init example_library no_args initial_world = (Inr plain_instance, plain_world)
   \<and> reads example_library [ReadStub SignBlob, ReadGrpcChannel] plain_instance plain_world
       = (used_instance, used_world)
   \<and> arg_channel no_args = None
   \<and> \<not> truthy_str (arg_api_mtls_endpoint no_args)
   \<and> t_grpc_channel plain_instance = None
   \<and> channels_created (added initial_world plain_world) = 0
   \<and> channels_created (added initial_world used_world) = 1
   \<and> grpc_channel example_library used_instance used_world
       = (Inr (Channel 2), used_instance, used_world)
   \<and> init example_library mtls_args used_world = (Inr second_instance, second_world)
   \<and> arg_channel mtls_args = None
   \<and> truthy_str (arg_api_mtls_endpoint mtls_args)
   \<and> t_grpc_channel second_instance = Some (Channel (fresh used_world))
   \<and> channels_created (added used_world second_world) = 1
   \<and> channels_created (added second_world
        (snd (reads example_library [ReadGrpcChannel, ReadStub SignBlob] second_instance
           second_world))) = 0
   \<and> fst (init example_library channel_args initial_world)
       = Inr \<lparr>t_grpc_channel = Some (Channel 0), t_stubs = 1, t_host = ''example.com'',
               t_credentials = FalseValue\<rparr>
   \<and> arg_channel channel_args = Some (Channel 0)
   \<and> t_grpc_channel (fst (reads example_library [ReadStub GenerateAccessToken, ReadGrpcChannel]
        \<lparr>t_grpc_channel = Some (Channel 0), t_stubs = 1, t_host = ''example.com'',
          t_credentials = FalseValue\<rparr>
        (snd (init example_library channel_args initial_world)))) = Some (Channel 0)
   \<and> channels_created (added initial_world
        (snd (reads example_library [ReadStub GenerateAccessToken, ReadGrpcChannel]
           \<lparr>t_grpc_channel = Some (Channel 0), t_stubs = 1, t_host = ''example.com'',
             t_credentials = FalseValue\<rparr>
           (snd (init example_library channel_args initial_world))))) = 0"
proof -
  let ?c = "\<lparr>t_grpc_channel = Some (Channel 0), t_stubs = 1, t_host = ''example.com'',
             t_credentials = FalseValue\<rparr>"
  have fc: "fst (init example_library channel_args initial_world) = Inr ?c"
    by (simp add: channel_args_run)
  have c: "init example_library channel_args initial_world
             = (Inr ?c, snd (init example_library channel_args initial_world))"
    using fc by (simp add: prod_eq_iff)
  have r: "reads lib xs s w = (fst (reads lib xs s w), snd (reads lib xs s w))" for lib xs s w
    by simp
  note tp = channel_created_at_most_once [OF plain_run used_run]
  note tm = channel_created_at_most_once [OF second_run
      r [of example_library "[ReadGrpcChannel, ReadStub SignBlob]"]]
  note tc = channel_created_at_most_once [OF c
      r [of example_library "[ReadStub GenerateAccessToken, ReadGrpcChannel]"]]
  have a: "arg_channel no_args = None" "\<not> truthy_str (arg_api_mtls_endpoint no_args)"
     "arg_channel mtls_args = None" "truthy_str (arg_api_mtls_endpoint mtls_args)"
     "arg_channel channel_args = Some (Channel 0)"
    by (simp_all add: no_args_def mtls_args_def channel_args_def mtls_cert_args_def)
  have u: "t_grpc_channel used_instance = Some (Channel 2)"
    by (simp add: used_instance_def)
  have 1: "t_grpc_channel plain_instance = None"
    "channels_created (added initial_world plain_world) = 0"
    using tp a(1,2) by blast+
  have 2: "grpc_channel example_library used_instance used_world
       = (Inr (Channel 2), used_instance, used_world)"
    using tp u by blast
  have "channels_created (added initial_world used_world) \<le> 1"
    using tp by blast
  moreover have "channels_created (added initial_world used_world) \<noteq> 0"
    by (simp add: used_world_value initial_world_def added_def channels_created_def)
  ultimately have 3: "channels_created (added initial_world used_world) = 1"
    by simp
  have 4: "t_grpc_channel second_instance = Some (Channel (fresh used_world))"
    "channels_created (added used_world second_world) = 1"
    "channels_created (added second_world
        (snd (reads example_library [ReadGrpcChannel, ReadStub SignBlob] second_instance
           second_world))) = 0"
    using tm a(3,4) by blast+
  have 5: "t_grpc_channel (fst (reads example_library [ReadStub GenerateAccessToken, ReadGrpcChannel]
        ?c (snd (init example_library channel_args initial_world)))) = Some (Channel 0)"
    "channels_created (added initial_world
        (snd (reads example_library [ReadStub GenerateAccessToken, ReadGrpcChannel]
           ?c (snd (init example_library channel_args initial_world))))) = 0"
    using tc a(5) by blast+
  show ?thesis
    using plain_run used_run second_run fc a 1 2 3 4 5 by blast
qed



lemma evolves_new_entry:
  "evolves self w self1 w1 \<Longrightarrow> dicts w (t_stubs self) n = None \<Longrightarrow>
     dicts w1 (t_stubs self1) n = Some m \<Longrightarrow>
     \<exists>r. n = stub_name r \<and> mc_route m = route r \<and> fresh w \<le> mc_id m
        \<and> mc_id m < fresh w1 \<and> t_grpc_channel self1 = Some (mc_channel m)
        \<and> UnaryUnaryCalled m \<in> set (trace w1)"
  unfolding evolves_def by simp

lemma stub_of_stored:
  assumes "stub_of r lib self w = (Inr m, self1, w1)"
  shows "dicts w1 (t_stubs self1) (stub_name r) = Some m"
proof -
  obtain req resp where "stub_of r = stub_property (stub_name r) (route r) req resp"
    using stub_of_eq by blast
  with assms have sp: "stub_property (stub_name r) (route r) req resp lib self w = (Inr m, self1, w1)"
    by simp
  from stub_property_step(1,7) [OF sp] show ?thesis by simp
qed


lemma init_reads_evolves:
  assumes "init lib a w0 = (Inr self0, w1)" and "reads lib xs self0 w1 = (self, w)"
  shows "\<exists>es0. trace w1 = trace w0 @ es0 \<and> (\<forall>rt. stubs_created rt es0 = 0)"
    and "evolves self0 w1 self w"
    and "dicts w1 (t_stubs self0) n = None"
  using init_success(3,5) [OF assms(1)] evolves_reads [OF assms(2)] by auto


subsection \<open>The routes of the stubs\<close>

text \<open>
  Claim C3. On any instance, after any sequence of reads, the stub a stub property
  returns was made by \<^verbatim>\<open>unary_unary\<close> on the instance's channel for the route of its method:
  \<^verbatim>\<open>/google.iam.credentials.v1.IAMCredentials/GenerateAccessToken\<close> for
  \<^verbatim>\<open>generate_access_token\<close>, and \<^verbatim>\<open>GenerateIdToken\<close>, \<^verbatim>\<open>SignBlob\<close>, \<^verbatim>\<open>SignJwt\<close> for the other three.
\<close>

theorem stub_bound_to_route:
  assumes "init lib a w0 = (Inr self0, w1)"
    and "reads lib xs self0 w1 = (self, w)"
    and "stub_of r lib self w = (Inr m, self1, w2)"
  shows "mc_route m = route r
       \<and> t_grpc_channel self1 = Some (mc_channel m)
       \<and> UnaryUnaryCalled m \<in> set (trace w2)
       \<and> mc_route m =
           (case r of
              GenerateAccessToken \<Rightarrow>
                ''/google.iam.credentials.v1.IAMCredentials/GenerateAccessToken''
            | GenerateIdToken \<Rightarrow> ''/google.iam.credentials.v1.IAMCredentials/GenerateIdToken''
            | SignBlob \<Rightarrow> ''/google.iam.credentials.v1.IAMCredentials/SignBlob''
            | SignJwt \<Rightarrow> ''/google.iam.credentials.v1.IAMCredentials/SignJwt'')"
proof -
  note i = init_reads_evolves [OF assms(1,2)]
  have e2: "evolves self w self1 w2" using assms(3) by (rule evolves_stub_of)
  have e12: "evolves self0 w1 self1 w2" using i(2) e2 by (rule evolves_trans)
  have s2: "dicts w2 (t_stubs self1) (stub_name r) = Some m"
    using assms(3) by (rule stub_of_stored)
  have st: "t_stubs self1 = t_stubs self0" using e12 unfolding evolves_def by simp
  obtain r1 where r1: "stub_name r = stub_name r1" "mc_route m = route r1"
     "t_grpc_channel self1 = Some (mc_channel m)" "UnaryUnaryCalled m \<in> set (trace w2)"
    using evolves_new_entry [OF e12 i(3) s2] by blast
  from r1(1) have "r1 = r" by simp
  with r1 have rt: "mc_route m = route r" by simp
  have "route r =
           (case r of
              GenerateAccessToken \<Rightarrow>
                ''/google.iam.credentials.v1.IAMCredentials/GenerateAccessToken''
            | GenerateIdToken \<Rightarrow> ''/google.iam.credentials.v1.IAMCredentials/GenerateIdToken''
            | SignBlob \<Rightarrow> ''/google.iam.credentials.v1.IAMCredentials/SignBlob''
            | SignJwt \<Rightarrow> ''/google.iam.credentials.v1.IAMCredentials/SignJwt'')"
    by (cases r) simp_all
  with rt r1(3,4) show ?thesis by simp
qed

theorem stub_bound_to_route_witness:
  "init example_library no_args initial_world = (Inr plain_instance, plain_world)
   \<and> reads example_library [ReadStub SignBlob, ReadGrpcChannel] plain_instance plain_world
       = (used_instance, used_world)
   \<and> fst (stub_of GenerateAccessToken example_library used_instance used_world)
       = Inr (example_stub 4 (Channel 2) ''GenerateAccessToken'')
   \<and> mc_route (example_stub 4 (Channel 2) ''GenerateAccessToken'')
       = ''/google.iam.credentials.v1.IAMCredentials/GenerateAccessToken''
   \<and> fst (stub_of GenerateIdToken example_library used_instance used_world)
       = Inr (example_stub 4 (Channel 2) ''GenerateIdToken'')
   \<and> mc_route (example_stub 4 (Channel 2) ''GenerateIdToken'')
       = ''/google.iam.credentials.v1.IAMCredentials/GenerateIdToken''
   \<and> fst (stub_of SignBlob example_library used_instance used_world)
       = Inr (example_stub 3 (Channel 2) ''SignBlob'')
   \<and> mc_route (example_stub 3 (Channel 2) ''SignBlob'')
       = ''/google.iam.credentials.v1.IAMCredentials/SignBlob''
   \<and> UnaryUnaryCalled (example_stub 3 (Channel 2) ''SignBlob'') \<in> set (trace used_world)
   \<and> fst (stub_of SignJwt example_library used_instance used_world)
       = Inr (example_stub 4 (Channel 2) ''SignJwt'')
   \<and> mc_route (example_stub 4 (Channel 2) ''SignJwt'')
       = ''/google.iam.credentials.v1.IAMCredentials/SignJwt''
   \<and> UnaryUnaryCalled (example_stub 4 (Channel 2) ''SignJwt'') \<in> set (trace jwt_world)
   \<and> t_grpc_channel used_instance = Some (mc_channel (example_stub 4 (Channel 2) ''SignJwt''))"
proof -
  note a = stub_bound_to_route [OF plain_run used_run used_stubs(3)]
  note b = stub_bound_to_route [OF plain_run used_run used_stubs(4)]
  note c = stub_bound_to_route [OF plain_run used_run used_stubs(1)]
  note d = stub_bound_to_route [OF plain_run used_run used_stubs(2)]
  have f: "fst (stub_of GenerateAccessToken example_library used_instance used_world)
       = Inr (example_stub 4 (Channel 2) ''GenerateAccessToken'')"
     "fst (stub_of GenerateIdToken example_library used_instance used_world)
       = Inr (example_stub 4 (Channel 2) ''GenerateIdToken'')"
     "fst (stub_of SignBlob example_library used_instance used_world)
       = Inr (example_stub 3 (Channel 2) ''SignBlob'')"
     "fst (stub_of SignJwt example_library used_instance used_world)
       = Inr (example_stub 4 (Channel 2) ''SignJwt'')"
    using used_stubs [THEN arg_cong [where f = fst]] by simp_all
  have 1: "mc_route (example_stub 4 (Channel 2) ''GenerateAccessToken'')
       = ''/google.iam.credentials.v1.IAMCredentials/GenerateAccessToken''"
    using a by simp
  have 2: "mc_route (example_stub 4 (Channel 2) ''GenerateIdToken'')
       = ''/google.iam.credentials.v1.IAMCredentials/GenerateIdToken''"
    using b by simp
  have 3: "mc_route (example_stub 3 (Channel 2) ''SignBlob'')
       = ''/google.iam.credentials.v1.IAMCredentials/SignBlob''"
    "UnaryUnaryCalled (example_stub 3 (Channel 2) ''SignBlob'') \<in> set (trace used_world)"
    using c by simp_all
  have 4: "mc_route (example_stub 4 (Channel 2) ''SignJwt'')
       = ''/google.iam.credentials.v1.IAMCredentials/SignJwt''"
    "UnaryUnaryCalled (example_stub 4 (Channel 2) ''SignJwt'') \<in> set (trace jwt_world)"
    "t_grpc_channel used_instance = Some (mc_channel (example_stub 4 (Channel 2) ''SignJwt''))"
    using d by simp_all
  show ?thesis
    using plain_run used_run f 1 2 3 4 by blast
qed


subsection \<open>The stubs of an instance\<close>



lemma separate_sym: "separate d1 d2 w \<Longrightarrow> separate d2 d1 w"
  unfolding separate_def by metis

lemma separate_step:
  assumes s: "separate d1 d2 w" and e: "evolves self w self1 w1" and d: "t_stubs self = d1"
  shows "separate d1 d2 w1"
proof -
  from s have ne: "d1 \<noteq> d2"
    and b1: "\<And>n m. dicts w d1 n = Some m \<Longrightarrow> mc_id m < fresh w"
    and b2: "\<And>n m. dicts w d2 n = Some m \<Longrightarrow> mc_id m < fresh w"
    and dj: "\<And>n1 n2 m1 m2. dicts w d1 n1 = Some m1 \<Longrightarrow> dicts w d2 n2 = Some m2 \<Longrightarrow>
         mc_id m1 \<noteq> mc_id m2"
    unfolding separate_def by blast+
  from e d have fr: "fresh w \<le> fresh w1"
    and other: "\<And>x. x \<noteq> d1 \<Longrightarrow> dicts w1 x = dicts w x"
    and keep: "\<And>n m. dicts w d1 n = Some m \<Longrightarrow> dicts w1 d1 n = Some m"
    and new: "\<And>n m. dicts w d1 n = None \<Longrightarrow> dicts w1 d1 n = Some m \<Longrightarrow>
         fresh w \<le> mc_id m \<and> mc_id m < fresh w1"
    unfolding evolves_def by blast+
  have d2: "dicts w1 d2 = dicts w d2" using other ne by simp
  have old_or_new: "(dicts w d1 n = Some m \<and> mc_id m < fresh w)
       \<or> (fresh w \<le> mc_id m \<and> mc_id m < fresh w1)"
    if "dicts w1 d1 n = Some m" for n m
  proof (cases "dicts w d1 n")
    case None
    with new that show ?thesis by blast
  next
    case (Some m0)
    with keep that have "m0 = m" by simp
    with Some b1 show ?thesis by blast
  qed
  have c1: "mc_id m < fresh w1" if "dicts w1 d1 n = Some m" for n m
    using old_or_new [OF that] fr by auto
  have c2: "mc_id m < fresh w1" if "dicts w1 d2 n = Some m" for n m
    using that d2 b2 fr by fastforce
  have c3: "mc_id m1 \<noteq> mc_id m2"
    if "dicts w1 d1 n1 = Some m1" "dicts w1 d2 n2 = Some m2" for n1 n2 m1 m2
  proof -
    from that(2) d2 have m2: "dicts w d2 n2 = Some m2" by simp
    from old_or_new [OF that(1)] show ?thesis
    proof
      assume "dicts w d1 n1 = Some m1 \<and> mc_id m1 < fresh w"
      with dj m2 show ?thesis by blast
    next
      assume "fresh w \<le> mc_id m1 \<and> mc_id m1 < fresh w1"
      with b2 [OF m2] show ?thesis by simp
    qed
  qed
  show ?thesis unfolding separate_def using ne c1 c2 c3 by blast
qed

lemma reads2_separate:
  "reads2 lib zs s1 s2 w = (s1b, s2b, w1) \<Longrightarrow> separate (t_stubs s1) (t_stubs s2) w \<Longrightarrow>
     separate (t_stubs s1) (t_stubs s2) w1 \<and> t_stubs s1b = t_stubs s1 \<and> t_stubs s2b = t_stubs s2
   \<and> (\<forall>x. x \<noteq> t_stubs s1 \<and> x \<noteq> t_stubs s2 \<longrightarrow> dicts w1 x = dicts w x)"
proof (induction zs arbitrary: s1 s2 w)
  case Nil
  then show ?case by simp
next
  case (Cons z zs)
  obtain b x where z: "z = (b, x)" by (cases z)
  show ?case
  proof (cases b)
    case True
    obtain s1a wa where st: "read_property lib x s1 w = (s1a, wa)"
      by (cases "read_property lib x s1 w")
    have e: "evolves s1 w s1a wa" using st by (rule evolves_read_property)
    have r: "reads2 lib zs s1a s2 wa = (s1b, s2b, w1)"
      using Cons.prems(1) z True st by simp
    have t: "t_stubs s1a = t_stubs s1" using e unfolding evolves_def by simp
    have o: "\<forall>x. x \<noteq> t_stubs s1 \<longrightarrow> dicts wa x = dicts w x"
      using e unfolding evolves_def by simp
    have "separate (t_stubs s1) (t_stubs s2) wa"
      using Cons.prems(2) e by (rule separate_step) simp
    then have "separate (t_stubs s1a) (t_stubs s2) wa" using t by simp
    from Cons.IH [OF r this] t o show ?thesis by simp
  next
    case False
    obtain s2a wa where st: "read_property lib x s2 w = (s2a, wa)"
      by (cases "read_property lib x s2 w")
    have e: "evolves s2 w s2a wa" using st by (rule evolves_read_property)
    have r: "reads2 lib zs s1 s2a wa = (s1b, s2b, w1)"
      using Cons.prems(1) z False st by simp
    have t: "t_stubs s2a = t_stubs s2" using e unfolding evolves_def by simp
    have o: "\<forall>x. x \<noteq> t_stubs s2 \<longrightarrow> dicts wa x = dicts w x"
      using e unfolding evolves_def by simp
    have "separate (t_stubs s2) (t_stubs s1) w"
      using Cons.prems(2) by (rule separate_sym)
    then have "separate (t_stubs s2) (t_stubs s1) wa"
      using e by (rule separate_step) simp
    then have "separate (t_stubs s1) (t_stubs s2a) wa"
      using t separate_sym by simp
    from Cons.IH [OF r this] t o show ?thesis by simp
  qed
qed

lemma evolves_fresh_entries:
  assumes "evolves self w self1 w1" and "dicts w (t_stubs self) = Map.empty"
    and "dicts w1 (t_stubs self1) n = Some m"
  shows "mc_id m < fresh w1"
proof -
  have "dicts w (t_stubs self) n = None" using assms(2) by simp
  from evolves_new_entry [OF assms(1) this assms(3)] show ?thesis by blast
qed

subsection \<open>The stub dictionary of an instance\<close>

text \<open>
  Claim C10. Let the class-level dictionary be an object that exists before any instance.
  Construct an instance, read its properties any number of times, construct a second
  instance, and read the properties of both in any interleaving. Each instance comes out
  of its constructor with an empty dictionary, which is a new object: it is neither the
  class-level dictionary, nor the dictionary of the other instance, nor any object that
  existed before the constructor ran. Each instance keeps its dictionary, the class-level
  dictionary is never changed, and no stub is ever held by the dictionaries of both
  instances.
\<close>

theorem fresh_stub_cache:
  assumes "class_stubs < fresh w0"
    and "init lib a1 w0 = (Inr s1, w1)"
    and "reads lib xs s1 w1 = (s1a, w1a)"
    and "init lib a2 w1a = (Inr s2, w2)"
    and "reads2 lib zs s1a s2 w2 = (s1b, s2b, w3)"
  shows "dicts w1 (t_stubs s1) = Map.empty
       \<and> dicts w2 (t_stubs s2) = Map.empty
       \<and> fresh w0 \<le> t_stubs s1 \<and> fresh w1a \<le> t_stubs s2
       \<and> t_stubs s1 \<noteq> class_stubs \<and> t_stubs s2 \<noteq> class_stubs \<and> t_stubs s2 \<noteq> t_stubs s1
       \<and> t_stubs s1b = t_stubs s1 \<and> t_stubs s2b = t_stubs s2
       \<and> dicts w3 class_stubs = dicts w0 class_stubs
       \<and> (\<forall>n1 n2 m1 m2. dicts w3 (t_stubs s1b) n1 = Some m1 \<longrightarrow>
             dicts w3 (t_stubs s2b) n2 = Some m2 \<longrightarrow> m1 \<noteq> m2)"
proof -
  note i1 = init_success [OF assms(2)]
  note i2 = init_success [OF assms(4)]
  have e1: "evolves s1 w1 s1a w1a" using assms(3) by (rule evolves_reads)
  have t1: "t_stubs s1a = t_stubs s1" using e1 unfolding evolves_def by simp
  have f1: "fresh w1 \<le> fresh w1a" using e1 unfolding evolves_def by simp
  have o1: "\<And>x. x \<noteq> t_stubs s1 \<Longrightarrow> dicts w1a x = dicts w1 x"
    using e1 unfolding evolves_def by simp
  have ne: "t_stubs s1 \<noteq> t_stubs s2" using i1(2) f1 i2(1) by simp
  have c1: "t_stubs s1 \<noteq> class_stubs" using assms(1) i1(1) by simp
  have c2: "t_stubs s2 \<noteq> class_stubs" using assms(1) i1(1,2) f1 i2(1) by simp
  have d1: "dicts w2 (t_stubs s1) = dicts w1a (t_stubs s1)" using i2(4) [of "t_stubs s1"] ne by simp
  have b1: "mc_id m < fresh w2" if "dicts w2 (t_stubs s1) n = Some m" for n m
  proof -
    have "dicts w1a (t_stubs s1a) n = Some m" using that d1 t1 by simp
    from evolves_fresh_entries [OF e1 i1(3) this] have "mc_id m < fresh w1a" .
    with i2(1,2) show ?thesis by simp
  qed
  have sep: "separate (t_stubs s1a) (t_stubs s2) w2"
    unfolding separate_def using ne t1 b1 i2(3) by auto
  note r = reads2_separate [OF assms(5) sep]
  from r have sep3: "separate (t_stubs s1a) (t_stubs s2) w3"
    and k1: "t_stubs s1b = t_stubs s1a" and k2: "t_stubs s2b = t_stubs s2"
    and o3: "\<forall>x. x \<noteq> t_stubs s1a \<and> x \<noteq> t_stubs s2 \<longrightarrow> dicts w3 x = dicts w2 x"
    by blast+
  have cls: "dicts w3 class_stubs = dicts w0 class_stubs"
  proof -
    have "dicts w3 class_stubs = dicts w2 class_stubs" using o3 c1 c2 t1 by auto
    also have "\<dots> = dicts w1a class_stubs" using i2(4) [of class_stubs] c2 by auto
    also have "\<dots> = dicts w1 class_stubs" using o1 [of class_stubs] c1 by auto
    also have "\<dots> = dicts w0 class_stubs" using i1(4) [of class_stubs] c1 by auto
    finally show ?thesis .
  qed
  have dj: "m1 \<noteq> m2"
    if "dicts w3 (t_stubs s1b) n1 = Some m1" "dicts w3 (t_stubs s2b) n2 = Some m2"
    for n1 n2 m1 m2
  proof -
    from sep3 that k1 k2 have "mc_id m1 \<noteq> mc_id m2" unfolding separate_def by metis
    then show ?thesis by auto
  qed
  show ?thesis
    using i1(1,3) i2(1,3) c1 c2 ne k1 k2 t1 cls dj by auto
qed

theorem fresh_stub_cache_witness:
  "class_stubs < fresh initial_world
   \<and> init example_library no_args initial_world = (Inr plain_instance, plain_world)
   \<and> reads example_library [ReadStub SignBlob, ReadGrpcChannel] plain_instance plain_world
       = (used_instance, used_world)
   \<and> init example_library mtls_args used_world = (Inr second_instance, second_world)
   \<and> reads2 example_library shared_reads used_instance second_instance second_world
       = (used_instance, second_instance, shared_world)
   \<and> dicts plain_world (t_stubs plain_instance) = Map.empty
   \<and> dicts second_world (t_stubs second_instance) = Map.empty
   \<and> t_stubs second_instance \<noteq> t_stubs plain_instance
   \<and> t_stubs plain_instance \<noteq> class_stubs
   \<and> t_stubs second_instance \<noteq> class_stubs
   \<and> dicts shared_world class_stubs = dicts initial_world class_stubs
   \<and> dicts shared_world (t_stubs used_instance) ''sign_blob''
       = Some (example_stub 3 (Channel 2) ''SignBlob'')
   \<and> dicts shared_world (t_stubs second_instance) ''sign_blob''
       = Some (example_stub 7 (Channel 4) ''SignBlob'')
   \<and> example_stub 3 (Channel 2) ''SignBlob'' \<noteq> example_stub 7 (Channel 4) ''SignBlob''"
proof -
  have h: "class_stubs < fresh initial_world"
    by (simp add: class_stubs_def initial_world_def)
  note t = fresh_stub_cache [OF h plain_run used_run second_run shared_run(1)]
  from t have 1: "dicts plain_world (t_stubs plain_instance) = Map.empty"
    "dicts second_world (t_stubs second_instance) = Map.empty"
    "t_stubs second_instance \<noteq> t_stubs plain_instance"
    "t_stubs plain_instance \<noteq> class_stubs"
    "t_stubs second_instance \<noteq> class_stubs"
    "dicts shared_world class_stubs = dicts initial_world class_stubs"
    by blast+
  from t have "\<forall>n1 n2 m1 m2. dicts shared_world (t_stubs used_instance) n1 = Some m1 \<longrightarrow>
             dicts shared_world (t_stubs second_instance) n2 = Some m2 \<longrightarrow> m1 \<noteq> m2"
    by blast
  with shared_run(2,3)
  have 2: "example_stub 3 (Channel 2) ''SignBlob'' \<noteq> example_stub 7 (Channel 4) ''SignBlob''"
    by blast
  show ?thesis
    using h plain_run used_run second_run shared_run 1 2 by blast
qed

end
